theory Spec2Isabelle
  imports Complex_Main
begin

section \<open>JSON values and the zod schema library\<close>

text \<open>
  The shared package validates every external input (log documents, the index mapping,
  the process environment) with zod schemas. A raw value is a JSON value; an object is
  the list of its own properties in order (keys are distinct in a well-formed object),
  and reading a property that is absent gives \<open>None\<close> (JavaScript's \<open>undefined\<close>).
\<close>

datatype json =
    JNull
  | JBool bool
  | JNum rat
  | JStr string
  | JArr "json list"
  | JObj "(string \<times> json) list"

fun jfield :: "json \<Rightarrow> string \<Rightarrow> json option" where
  "jfield (JObj kvs) k = map_of kvs k"
| "jfield _ k = None"

fun jpath :: "json \<Rightarrow> string list \<Rightarrow> json option" where
  "jpath v [] = Some v"
| "jpath v (k # ks) = (case jfield v k of None \<Rightarrow> None | Some w \<Rightarrow> jpath w ks)"

text \<open>JavaScript truthiness of a value read from an object (\<open>a && b\<close>, \<open>!a\<close>).\<close>

fun truthy :: "json option \<Rightarrow> bool" where
  "truthy None = False"
| "truthy (Some JNull) = False"
| "truthy (Some (JBool b)) = b"
| "truthy (Some (JNum n)) = (n \<noteq> 0)"
| "truthy (Some (JStr s)) = (s \<noteq> [])"
| "truthy (Some (JArr xs)) = True"
| "truthy (Some (JObj kvs)) = True"

text \<open>
  The part of zod the repository uses, as a schema tree. \<open>ZRecord\<close> carries the key
  schema and the value schema of \<open>z.record(k, v)\<close>; \<open>ZObject\<close> is \<open>z.object\<close> in
  its default mode, which drops unknown keys; \<open>ZArray s n\<close> is \<open>z.array(s).min(n)\<close>.
  A union takes the first option that accepts the value; when none does (the options
  of the repository's unions carry no checks) it reports \<open>invalid_union\<close>.
\<close>

datatype str_check = SMin nat | SMax nat | SUrl | SDatetime

datatype num_check = NInt | NMin rat | NMax rat | NPositive

datatype zschema =
    ZString "str_check list"
  | ZNumber "num_check list"
  | ZBoolean
  | ZAny
  | ZEnum "string list"
  | ZUnion "zschema list"
  | ZOptional zschema
  | ZDefault zschema json
  | ZArray zschema nat
  | ZRecord zschema zschema
  | ZObject "(string \<times> zschema) list"

datatype issue_code =
    invalid_type | invalid_enum_value | invalid_union | invalid_string | too_small | too_big

datatype path_elem = Key string | Idx nat

type_synonym issue = "issue_code \<times> path_elem list"

text \<open>
  Two string formats are decided outside the repository: \<open>datetime()\<close> by a regular
  expression of the installed zod version and \<open>url()\<close> by the platform's URL parser.
  Both are parameters of the model.
\<close>

record platform =
  is_datetime :: "string \<Rightarrow> bool"
  is_url :: "string \<Rightarrow> bool"

fun str_issue :: "platform \<Rightarrow> string \<Rightarrow> str_check \<Rightarrow> issue_code option" where
  "str_issue P s (SMin n) = (if length s < n then Some too_small else None)"
| "str_issue P s (SMax n) = (if length s > n then Some too_big else None)"
| "str_issue P s SUrl = (if is_url P s then None else Some invalid_string)"
| "str_issue P s SDatetime = (if is_datetime P s then None else Some invalid_string)"

definition is_integer :: "rat \<Rightarrow> bool" where
  "is_integer r = (of_int \<lfloor>r\<rfloor> = r)"

fun num_issue :: "rat \<Rightarrow> num_check \<Rightarrow> issue_code option" where
  "num_issue r NInt = (if is_integer r then None else Some invalid_type)"
| "num_issue r (NMin n) = (if r < n then Some too_small else None)"
| "num_issue r (NMax n) = (if r > n then Some too_big else None)"
| "num_issue r NPositive = (if r \<le> 0 then Some too_small else None)"

definition issues_at :: "path_elem list \<Rightarrow> issue_code option list \<Rightarrow> issue list" where
  "issues_at p cs = map (\<lambda>c. (c, p)) (List.map_filter id cs)"

definition finish :: "issue list \<Rightarrow> json option \<Rightarrow> issue list + json option" where
  "finish is v = (if is = [] then Inr v else Inl is)"

function (sequential) zparse :: "platform \<Rightarrow> path_elem list \<Rightarrow> zschema \<Rightarrow> json option \<Rightarrow> issue list + json option"
and zparse_union :: "platform \<Rightarrow> path_elem list \<Rightarrow> zschema list \<Rightarrow> json option \<Rightarrow> issue list + json option"
and zparse_shape :: "platform \<Rightarrow> path_elem list \<Rightarrow> (string \<times> zschema) list \<Rightarrow> json \<Rightarrow> issue list \<times> (string \<times> json) list"
and zparse_entries :: "platform \<Rightarrow> path_elem list \<Rightarrow> zschema \<Rightarrow> zschema \<Rightarrow> (string \<times> json) list \<Rightarrow> issue list \<times> (string \<times> json) list"
and zparse_items :: "platform \<Rightarrow> path_elem list \<Rightarrow> zschema \<Rightarrow> nat \<Rightarrow> json list \<Rightarrow> issue list \<times> json list"
where
  "zparse P p (ZString cs) v =
     (case v of
        Some (JStr s) \<Rightarrow> finish (issues_at p (map (str_issue P s) cs)) (Some (JStr s))
      | _ \<Rightarrow> Inl [(invalid_type, p)])"
| "zparse P p (ZNumber cs) v =
     (case v of
        Some (JNum r) \<Rightarrow> finish (issues_at p (map (num_issue r) cs)) (Some (JNum r))
      | _ \<Rightarrow> Inl [(invalid_type, p)])"
| "zparse P p ZBoolean v =
     (case v of
        Some (JBool b) \<Rightarrow> Inr (Some (JBool b))
      | _ \<Rightarrow> Inl [(invalid_type, p)])"
| "zparse P p ZAny v = Inr v"
| "zparse P p (ZEnum vs) v =
     (case v of
        Some (JStr s) \<Rightarrow> (if s \<in> set vs then Inr (Some (JStr s)) else Inl [(invalid_enum_value, p)])
      | _ \<Rightarrow> Inl [(invalid_type, p)])"
| "zparse P p (ZUnion opts) v = zparse_union P p opts v"
| "zparse P p (ZOptional s) v =
     (case v of None \<Rightarrow> Inr None | Some x \<Rightarrow> zparse P p s (Some x))"
| "zparse P p (ZDefault s d) v =
     (case v of None \<Rightarrow> zparse P p s (Some d) | Some x \<Rightarrow> zparse P p s (Some x))"
| "zparse P p (ZArray s n) v =
     (case v of
        Some (JArr xs) \<Rightarrow>
          (case zparse_items P p s 0 xs of
             (is, out) \<Rightarrow>
               finish ((if length xs < n then [(too_small, p)] else []) @ is) (Some (JArr out)))
      | _ \<Rightarrow> Inl [(invalid_type, p)])"
| "zparse P p (ZRecord ks vs) v =
     (case v of
        Some (JObj kvs) \<Rightarrow>
          (case zparse_entries P p ks vs kvs of (is, out) \<Rightarrow> finish is (Some (JObj out)))
      | _ \<Rightarrow> Inl [(invalid_type, p)])"
| "zparse P p (ZObject shape) v =
     (case v of
        Some (JObj kvs) \<Rightarrow>
          (case zparse_shape P p shape (JObj kvs) of (is, out) \<Rightarrow> finish is (Some (JObj out)))
      | _ \<Rightarrow> Inl [(invalid_type, p)])"
| "zparse_union P p [] v = Inl [(invalid_union, p)]"
| "zparse_union P p (s # opts) v =
     (case zparse P p s v of
        Inr out \<Rightarrow> Inr out
      | Inl _ \<Rightarrow> zparse_union P p opts v)"
| "zparse_shape P p [] data = ([], [])"
| "zparse_shape P p ((k, s) # shape) data =
     (case zparse_shape P p shape data of
        (is, out) \<Rightarrow>
          (case zparse P (p @ [Key k]) s (jfield data k) of
             Inl is' \<Rightarrow> (is' @ is, out)
           | Inr None \<Rightarrow> (is, out)
           | Inr (Some x) \<Rightarrow> (is, (k, x) # out)))"
| "zparse_entries P p ks vs [] = ([], [])"
| "zparse_entries P p ks vs ((k, x) # kvs) =
     (case zparse_entries P p ks vs kvs of
        (is, out) \<Rightarrow>
          (case (zparse P (p @ [Key k]) ks (Some (JStr k)), zparse P (p @ [Key k]) vs (Some x)) of
             (Inr _, Inr (Some y)) \<Rightarrow> (is, (k, y) # out)
           | (Inr _, Inr None) \<Rightarrow> (is, out)
           | (Inl ik, Inr _) \<Rightarrow> (ik @ is, out)
           | (Inr _, Inl iv) \<Rightarrow> (iv @ is, out)
           | (Inl ik, Inl iv) \<Rightarrow> (ik @ iv @ is, out)))"
| "zparse_items P p s i [] = ([], [])"
| "zparse_items P p s i (x # xs) =
     (case zparse_items P p s (Suc i) xs of
        (is, out) \<Rightarrow>
          (case zparse P (p @ [Idx i]) s (Some x) of
             Inl is' \<Rightarrow> (is' @ is, out)
           | Inr None \<Rightarrow> (is, JNull # out)
           | Inr (Some y) \<Rightarrow> (is, y # out)))"

  by pat_completeness auto

termination
  apply (relation "inv_image (less_than <*lex*> less_than)
    (\<lambda>x. case x of
        Inl (Inl (P, p, s, v)) \<Rightarrow> (Suc (size s), 0)
      | Inl (Inr (P, p, opts, v)) \<Rightarrow> (Suc (size_list size opts), 0)
      | Inr (Inl (P, p, shape, d)) \<Rightarrow> (Suc (size_list (size_prod (\<lambda>_. 0) size) shape), 0)
      | Inr (Inr (Inl (P, p, ks, vs, kvs))) \<Rightarrow> (Suc (size ks + size vs), Suc (length kvs))
      | Inr (Inr (Inr (P, p, s, i, xs))) \<Rightarrow> (Suc (size s), Suc (length xs)))")
  apply auto
  done

text \<open>\<open>schema.parse(x)\<close>: the typed value, or the thrown \<open>ZodError\<close> with its issues.\<close>

definition parse :: "platform \<Rightarrow> zschema \<Rightarrow> json option \<Rightarrow> issue list + json option" where
  "parse P s v = zparse P [] s v"

text \<open>zod's classification of a raw value (\<open>getParsedType\<close>), restricted to JSON.\<close>

datatype parsed_type = t_null | t_boolean | t_number | t_string | t_array | t_object

fun getParsedType :: "json \<Rightarrow> parsed_type" where
  "getParsedType JNull = t_null"
| "getParsedType (JBool b) = t_boolean"
| "getParsedType (JNum r) = t_number"
| "getParsedType (JStr s) = t_string"
| "getParsedType (JArr xs) = t_array"
| "getParsedType (JObj kvs) = t_object"

text \<open>\<open>jremove ks v\<close> is \<open>v\<close> with the properties named in \<open>ks\<close> deleted.\<close>

fun jremove :: "string list \<Rightarrow> json \<Rightarrow> json" where
  "jremove ks (JObj kvs) = JObj (filter (\<lambda>(k, v). k \<notin> set ks) kvs)"
| "jremove ks v = v"

section \<open>Log documents (elastic-index.ts)\<close>

definition EventActionSchema :: zschema where
  "EventActionSchema = ZEnum [''config_change'', ''db_pool_low'', ''latency_spike'']"

definition LabelsSchema :: zschema where
  "LabelsSchema = ZRecord (ZString []) (ZUnion [ZString [], ZNumber [], ZBoolean])"

definition MetricsSchema :: zschema where
  "MetricsSchema = ZRecord (ZString []) (ZUnion [ZNumber [], ZString []])"

definition ServiceSchema :: zschema where
  "ServiceSchema = ZObject [(''name'', ZString [SMax 256])]"

definition EventSchema :: zschema where
  "EventSchema = ZObject [(''action'', EventActionSchema)]"

definition LogDocumentSchema :: zschema where
  "LogDocumentSchema = ZObject
     [(''@timestamp'', ZString [SDatetime]),
      (''service'', ServiceSchema),
      (''event'', EventSchema),
      (''message'', ZString [SMax 1024]),
      (''trace_id'', ZOptional (ZString [SMax 256])),
      (''labels'', ZOptional LabelsSchema),
      (''metrics'', ZOptional MetricsSchema)]"

definition BulkIndexRequestSchema :: zschema where
  "BulkIndexRequestSchema = ZObject
     [(''index'', ZDefault (ZString []) (JStr ''causalops-logs'')),
      (''documents'', ZArray LogDocumentSchema 1)]"

definition IndexCreationRequestSchema :: zschema where
  "IndexCreationRequestSchema = ZObject
     [(''index'', ZDefault (ZString []) (JStr ''causalops-logs'')),
      (''mapping'', ZObject
         [(''settings'', ZObject
             [(''number_of_shards'', ZDefault (ZNumber [NInt, NPositive]) (JNum 1)),
              (''number_of_replicas'', ZDefault (ZNumber [NInt, NMin 0]) (JNum 1))]),
          (''mappings'', ZObject
             [(''properties'', ZRecord (ZString []) ZAny)])])]"

definition sampleLogDocument :: json where
  "sampleLogDocument = JObj
     [(''@timestamp'', JStr ''2025-09-18T10:00:00.000Z''),
      (''service'', JObj [(''name'', JStr ''api'')]),
      (''event'', JObj [(''action'', JStr ''latency_spike'')]),
      (''message'', JStr ''Latency spike detected: p95=980ms''),
      (''trace_id'', JStr ''t-1001''),
      (''labels'', JObj [(''db_pool_avail'', JNum 3), (''environment'', JStr ''staging'')]),
      (''metrics'', JObj [(''p95_ms'', JNum 980), (''request_count'', JNum 1500)])]"

text \<open>
  To run the schemas on concrete documents the platform parameter needs an instance.
  \<open>datetimeRegex\<close> is the default \<open>datetime()\<close> pattern of zod 3.22,
  \<^verbatim>\<open>^\d{4}-\d{2}-\d{2}T\d{2}:\d{2}:\d{2}(\.\d+)?Z$\<close>; the URL check of the instance only
  asks for a non-empty scheme before the first colon. The theorems below hold for
  every platform.
\<close>

definition is_digit :: "char \<Rightarrow> bool" where
  "is_digit c = (c \<in> set ''0123456789'')"

fun match_digits :: "nat \<Rightarrow> string \<Rightarrow> string option" where
  "match_digits 0 s = Some s"
| "match_digits (Suc n) [] = None"
| "match_digits (Suc n) (c # s) = (if is_digit c then match_digits n s else None)"

fun match_char :: "char \<Rightarrow> string \<Rightarrow> string option" where
  "match_char c [] = None"
| "match_char c (d # s) = (if c = d then Some s else None)"

fun match_fraction :: "string \<Rightarrow> string option" where
  "match_fraction (c # d # s) =
     (if c = CHR ''.'' \<and> is_digit d then Some (dropWhile is_digit s) else Some (c # d # s))"
| "match_fraction s = Some s"

definition datetimeRegex :: "string \<Rightarrow> bool" where
  "datetimeRegex s =
     (Option.bind (match_digits 4 s) (\<lambda>s.
      Option.bind (match_char CHR ''-'' s) (\<lambda>s.
      Option.bind (match_digits 2 s) (\<lambda>s.
      Option.bind (match_char CHR ''-'' s) (\<lambda>s.
      Option.bind (match_digits 2 s) (\<lambda>s.
      Option.bind (match_char CHR ''T'' s) (\<lambda>s.
      Option.bind (match_digits 2 s) (\<lambda>s.
      Option.bind (match_char CHR '':'' s) (\<lambda>s.
      Option.bind (match_digits 2 s) (\<lambda>s.
      Option.bind (match_char CHR '':'' s) (\<lambda>s.
      Option.bind (match_digits 2 s) match_fraction)))))))))) = Some ''Z'')"

definition node_platform :: platform where
  "node_platform = \<lparr>is_datetime = datetimeRegex, is_url = (\<lambda>s. takeWhile (\<lambda>c. c \<noteq> CHR '':'') s \<notin> {[], s})\<rparr>"

text \<open>A document whose only unusual entries are a boolean label and a boolean metric.\<close>

definition boolean_metric_document :: json where
  "boolean_metric_document = JObj
     [(''@timestamp'', JStr ''2025-09-18T10:00:00.000Z''),
      (''service'', JObj [(''name'', JStr ''api'')]),
      (''event'', JObj [(''action'', JStr ''db_pool_low'')]),
      (''message'', JStr ''pool low''),
      (''labels'', JObj [(''degraded'', JBool True)]),
      (''metrics'', JObj [(''degraded'', JBool True)])]"

section \<open>Environment validation (env.ts)\<close>

text \<open>
  \<open>schema.extend(shape)\<close> is the object spread \<open>{...old, ...shape}\<close>: a key of the
  extension replaces the old schema of that key in place, new keys follow.
\<close>

fun extend :: "zschema \<Rightarrow> (string \<times> zschema) list \<Rightarrow> zschema" where
  "extend (ZObject shape) ext =
     ZObject (map (\<lambda>(k, s). (k, case map_of ext k of None \<Rightarrow> s | Some s' \<Rightarrow> s')) shape
              @ filter (\<lambda>(k, s). k \<notin> fst ` set shape) ext)"
| "extend s ext = s"

definition baseEnvSchema :: zschema where
  "baseEnvSchema = ZObject
     [(''NODE_ENV'', ZDefault (ZEnum [''development'', ''production'', ''test'']) (JStr ''development''))]"

definition elasticCloudSchema :: zschema where
  "elasticCloudSchema = ZObject
     [(''ELASTIC_CLOUD_ID'', ZString [SMin 1]),
      (''ELASTIC_API_KEY'', ZString [SMin 1]),
      (''ELASTIC_INDEX'', ZDefault (ZString []) (JStr ''causalops-logs''))]"

definition elasticLocalSchema :: zschema where
  "elasticLocalSchema = ZObject
     [(''ELASTIC_NODE'', ZDefault (ZString [SUrl]) (JStr ''http://localhost:9200'')),
      (''ELASTIC_USERNAME'', ZDefault (ZString []) (JStr ''elastic'')),
      (''ELASTIC_PASSWORD'', ZString [SMin 1]),
      (''ELASTIC_INDEX'', ZDefault (ZString []) (JStr ''causalops-logs''))]"

definition vertexAISchema :: zschema where
  "vertexAISchema = ZObject
     [(''GOOGLE_APPLICATION_CREDENTIALS'', ZOptional (ZString [])),
      (''GCP_PROJECT_ID'', ZString [SMin 1])]"

definition agentEnvSchema :: zschema where
  "agentEnvSchema = extend baseEnvSchema
     [(''AGENT_PORT'', ZDefault (ZNumber [NInt, NMin 1, NMax 65535]) (JNum 3001)),
      (''GCP_PROJECT_ID'', ZString [SMin 1]),
      (''GOOGLE_APPLICATION_CREDENTIALS'', ZOptional (ZString [])),
      (''ELASTIC_CLOUD_ID'', ZOptional (ZString [])),
      (''ELASTIC_API_KEY'', ZOptional (ZString [])),
      (''ELASTIC_NODE'', ZOptional (ZString [SUrl])),
      (''ELASTIC_USERNAME'', ZOptional (ZString [])),
      (''ELASTIC_PASSWORD'', ZOptional (ZString [])),
      (''ELASTIC_INDEX'', ZDefault (ZString []) (JStr ''causalops-logs''))]"

definition webEnvSchema :: zschema where
  "webEnvSchema = extend baseEnvSchema
     [(''WEB_PORT'', ZDefault (ZNumber [NInt, NMin 1, NMax 65535]) (JNum 3000)),
      (''NEXT_PUBLIC_AGENT_URL'', ZDefault (ZString [SUrl]) (JStr ''http://localhost:3001''))]"

text \<open>
  The process environment maps variable names to strings; \<open>env_object\<close> is the object
  the schema sees. A variable is set non-empty when it is present and not \<open>''''\<close>.
\<close>

type_synonym process_env = "(string \<times> string) list"

definition env_object :: "process_env \<Rightarrow> json" where
  "env_object env = JObj (map (\<lambda>(k, v). (k, JStr v)) env)"

definition set_nonempty :: "process_env \<Rightarrow> string \<Rightarrow> bool" where
  "set_nonempty env k = (case map_of env k of None \<Rightarrow> False | Some v \<Rightarrow> v \<noteq> [])"

text \<open>An object literal; a property whose value is \<open>undefined\<close> reads as absent.\<close>

definition object_literal :: "(string \<times> json option) list \<Rightarrow> json" where
  "object_literal kvs = JObj (List.map_filter (\<lambda>(k, v). map_option (Pair k) v) kvs)"

text \<open>\<open>{...a, k: v}\<close> for a key \<open>k\<close> that \<open>a\<close> does not have.\<close>

fun spread_with :: "json \<Rightarrow> string \<Rightarrow> json \<Rightarrow> json" where
  "spread_with (JObj kvs) k v = JObj (filter (\<lambda>(k', x). k' \<noteq> k) kvs @ [(k, v)])"
| "spread_with a k v = JObj [(k, v)]"

text \<open>
  What a \<open>throw\<close> carries: a \<open>ZodError\<close> with its issues, a plain \<open>Error\<close> with its
  message, an \<open>Error\<close> whose message ends in another error (\<open>`...: ${error}`\<close>), a
  \<open>TypeError\<close>, a failure to read or parse a file, and the two failures of the
  Elasticsearch client: no connection (network or authentication), or an error
  response with its status and type.
\<close>

datatype js_error =
    ZodError "issue list"
  | Error string
  | ErrorWith string js_error
  | TypeError
  | FileError string
  | ConnectionError
  | ResponseError nat string

definition missing_credentials :: string where
  "missing_credentials =
     ''Missing Elasticsearch credentials. Provide either:\<newline>''
     @ ''  - ELASTIC_CLOUD_ID + ELASTIC_API_KEY (for Elastic Cloud)\<newline>''
     @ ''  - ELASTIC_NODE + ELASTIC_USERNAME + ELASTIC_PASSWORD (for local ES)''"

definition validateAgentEnvironment :: "platform \<Rightarrow> process_env \<Rightarrow> js_error + json" where
  "validateAgentEnvironment P env =
     (case parse P agentEnvSchema (Some (env_object env)) of
        Inl issues \<Rightarrow> Inl (ZodError issues)
      | Inr None \<Rightarrow> Inl TypeError
      | Inr (Some parsedEnv) \<Rightarrow>
          (let hasCloudCredentials =
                 (truthy (jfield parsedEnv ''ELASTIC_CLOUD_ID'')
                  \<and> truthy (jfield parsedEnv ''ELASTIC_API_KEY''));
               hasLocalCredentials =
                 (truthy (jfield parsedEnv ''ELASTIC_NODE'')
                  \<and> truthy (jfield parsedEnv ''ELASTIC_USERNAME'')
                  \<and> truthy (jfield parsedEnv ''ELASTIC_PASSWORD''))
           in if \<not> hasCloudCredentials \<and> \<not> hasLocalCredentials
              then Inl (Error missing_credentials)
              else Inr (spread_with parsedEnv ''elasticsearch''
                (if hasCloudCredentials
                 then object_literal
                   [(''type'', Some (JStr ''cloud'')),
                    (''cloudId'', jfield parsedEnv ''ELASTIC_CLOUD_ID''),
                    (''apiKey'', jfield parsedEnv ''ELASTIC_API_KEY''),
                    (''index'', jfield parsedEnv ''ELASTIC_INDEX'')]
                 else object_literal
                   [(''type'', Some (JStr ''local'')),
                    (''node'', jfield parsedEnv ''ELASTIC_NODE''),
                    (''username'', jfield parsedEnv ''ELASTIC_USERNAME''),
                    (''password'', jfield parsedEnv ''ELASTIC_PASSWORD''),
                    (''index'', jfield parsedEnv ''ELASTIC_INDEX'')]))))"

definition validateWebEnvironment :: "platform \<Rightarrow> process_env \<Rightarrow> js_error + json" where
  "validateWebEnvironment P env =
     (case parse P webEnvSchema (Some (env_object env)) of
        Inl issues \<Rightarrow> Inl (ZodError issues)
      | Inr None \<Rightarrow> Inl TypeError
      | Inr (Some parsedEnv) \<Rightarrow> Inr parsedEnv)"

text \<open>Two environments used to run the model: Elastic Cloud and a local node.\<close>

definition cloud_env :: process_env where
  "cloud_env =
     [(''ELASTIC_CLOUD_ID'', ''test-cloud-id''),
      (''ELASTIC_API_KEY'', ''test-api-key''),
      (''GCP_PROJECT_ID'', ''test-project'')]"

definition local_env :: process_env where
  "local_env =
     [(''ELASTIC_NODE'', ''http://localhost:9200''),
      (''ELASTIC_USERNAME'', ''elastic''),
      (''ELASTIC_PASSWORD'', ''testpass''),
      (''GCP_PROJECT_ID'', ''test-project'')]"

section \<open>Index initialisation (elastic-client.ts)\<close>

text \<open>
  The Elasticsearch cluster behind the client is a store of indices, each with the body
  it was created with and its documents by id. The cluster answers each request of
  the client in turn: \<open>outcomes\<close> says how the next requests will be answered
  (\<open>Fail e\<close>: the request is rejected with \<open>e\<close> before it takes effect;
  \<open>Unconfirmed\<close>: the response comes back without \<open>acknowledged\<close>, or with no
  successful shard; \<open>Healthy\<close>, also when the list has run out: a normal answer).
  \<open>requests\<close> is the log of the requests sent, \<open>console\<close> what was printed.
\<close>

record es_index =
  body :: json
  docs :: "(nat \<times> json) list"

datatype outcome = Healthy | Unconfirmed | Fail js_error

datatype request =
    Exists string
  | DeleteIndex string
  | CreateIndex string json
  | IndexDoc string json
  | DeleteDoc string nat

text \<open>
  A printed line: \<open>console.log(m)\<close>, \<open>console.error(m)\<close>, \<open>console.error(m, error)\<close>,
  the line printed for one issue of a \<open>ZodError\<close>, and a template literal with the
  values it interpolates.
\<close>

datatype template_part = Lit string | Interp "json option"

datatype console_line =
    Log string
  | Err string
  | ErrorLine string js_error
  | IssueLine issue
  | Template "template_part list"

record world =
  indices :: "string \<rightharpoonup> es_index"
  next_id :: nat
  outcomes :: "outcome list"
  requests :: "request list"
  console :: "console_line list"

definition next_outcome :: "world \<Rightarrow> outcome" where
  "next_outcome w = (case outcomes w of [] \<Rightarrow> Healthy | out # rest \<Rightarrow> out)"

definition send :: "request \<Rightarrow> world \<Rightarrow> world" where
  "send r w = w\<lparr>outcomes := tl (outcomes w), requests := requests w @ [r]\<rparr>"

definition console_log :: "string \<Rightarrow> world \<Rightarrow> world" where
  "console_log m w = w\<lparr>console := console w @ [Log m]\<rparr>"

definition console_error :: "string \<Rightarrow> js_error \<Rightarrow> world \<Rightarrow> world" where
  "console_error m e w = w\<lparr>console := console w @ [ErrorLine m e]\<rparr>"

text \<open>The five client calls the class makes.\<close>

definition client_indices_exists :: "string \<Rightarrow> world \<Rightarrow> (js_error + bool) \<times> world" where
  "client_indices_exists name w =
     (case next_outcome w of
        Fail e \<Rightarrow> (Inl e, send (Exists name) w)
      | _ \<Rightarrow> (Inr (indices w name \<noteq> None), send (Exists name) w))"

definition client_indices_delete :: "string \<Rightarrow> world \<Rightarrow> (js_error + unit) \<times> world" where
  "client_indices_delete name w =
     (case next_outcome w of
        Fail e \<Rightarrow> (Inl e, send (DeleteIndex name) w)
      | _ \<Rightarrow>
          (if indices w name = None
           then (Inl (ResponseError 404 ''index_not_found_exception''), send (DeleteIndex name) w)
           else (Inr (), send (DeleteIndex name) (w\<lparr>indices := (indices w)(name := None)\<rparr>))))"

text \<open>The answer of \<open>indices.create\<close> is its \<open>acknowledged\<close> flag.\<close>

definition client_indices_create :: "string \<Rightarrow> json \<Rightarrow> world \<Rightarrow> (js_error + bool) \<times> world" where
  "client_indices_create name b w =
     (case next_outcome w of
        Fail e \<Rightarrow> (Inl e, send (CreateIndex name b) w)
      | out \<Rightarrow>
          (if indices w name \<noteq> None
           then (Inl (ResponseError 400 ''resource_already_exists_exception''),
                 send (CreateIndex name b) w)
           else (Inr (out = Healthy),
                 send (CreateIndex name b)
                   (w\<lparr>indices := (indices w)(name \<mapsto> \<lparr>body = b, docs = []\<rparr>)\<rparr>))))"

text \<open>
  The answer of \<open>index\<close> is the number of successful shards and the new document's id.
  Writing to an index that does not exist creates it, the cluster's default.
\<close>

definition client_index :: "string \<Rightarrow> json \<Rightarrow> world \<Rightarrow> (js_error + nat \<times> nat) \<times> world" where
  "client_index name d w =
     (case next_outcome w of
        Fail e \<Rightarrow> (Inl e, send (IndexDoc name d) w)
      | Unconfirmed \<Rightarrow> (Inr (0, next_id w), send (IndexDoc name d) (w\<lparr>next_id := Suc (next_id w)\<rparr>))
      | Healthy \<Rightarrow>
          (let ix = (case indices w name of None \<Rightarrow> \<lparr>body = JObj [], docs = []\<rparr> | Some i \<Rightarrow> i)
           in (Inr (1, next_id w),
               send (IndexDoc name d)
                 (w\<lparr>indices := (indices w)(name \<mapsto> ix\<lparr>docs := docs ix @ [(next_id w, d)]\<rparr>),
                    next_id := Suc (next_id w)\<rparr>))))"

definition client_delete :: "string \<Rightarrow> nat \<Rightarrow> world \<Rightarrow> (js_error + unit) \<times> world" where
  "client_delete name i w =
     (case next_outcome w of
        Fail e \<Rightarrow> (Inl e, send (DeleteDoc name i) w)
      | _ \<Rightarrow>
          (case indices w name of
             None \<Rightarrow> (Inl (ResponseError 404 ''index_not_found_exception''), send (DeleteDoc name i) w)
           | Some ix \<Rightarrow>
               (if i \<in> fst ` set (docs ix)
                then (Inr (),
                      send (DeleteDoc name i)
                        (w\<lparr>indices := (indices w)(name \<mapsto> ix\<lparr>docs := filter (\<lambda>(j, d). j \<noteq> i) (docs ix)\<rparr>)\<rparr>))
                else (Inl (ResponseError 404 ''not_found''), send (DeleteDoc name i) w))))"

text \<open>
  The initializer object: \<open>this.env.elasticsearch.index\<close>, the platform of the schema
  checks, the files it can read (\<open>readFileSync\<close> followed by \<open>JSON.parse\<close>), the
  path that \<open>join(__dirname, '../../../data/mappings/elastic_index_mapping.json')\<close>
  gives, and the clock (\<open>new Date().toISOString()\<close>).
\<close>

record initializer =
  env_index :: string
  host :: platform
  read_json :: "string \<Rightarrow> js_error + json"
  default_mapping_path :: string
  now :: string

record IndexInitOptions =
  indexName :: "string option"
  mappingPath :: "string option"
  recreate :: "bool option"

text \<open>\<open>a || b\<close> on an optional string and on an optional boolean.\<close>

fun or_string :: "string option \<Rightarrow> string \<Rightarrow> string" where
  "or_string None d = d"
| "or_string (Some s) d = (if s = [] then d else s)"

fun or_false :: "bool option \<Rightarrow> bool" where
  "or_false None = False"
| "or_false (Some b) = b"

definition loadIndexMapping :: "initializer \<Rightarrow> string \<Rightarrow> js_error + json" where
  "loadIndexMapping this path =
     (case read_json this path of
        Inl error \<Rightarrow> Inl (ErrorWith (''Failed to load index mapping from '' @ path @ '': '') error)
      | Inr mapping \<Rightarrow>
          (case parse (host this) IndexCreationRequestSchema
                  (Some (JObj [(''index'', JStr (env_index this)), (''mapping'', mapping)])) of
             Inl issues \<Rightarrow>
               Inl (ErrorWith (''Failed to load index mapping from '' @ path @ '': '') (ZodError issues))
           | Inr validatedRequest \<Rightarrow>
               (case Option.bind validatedRequest (\<lambda>r. jfield r ''mapping'') of
                  None \<Rightarrow>
                    Inl (ErrorWith (''Failed to load index mapping from '' @ path @ '': '') TypeError)
                | Some m \<Rightarrow> Inr m)))"

definition checkIndexExists :: "string \<Rightarrow> world \<Rightarrow> (js_error + bool) \<times> world" where
  "checkIndexExists name w =
     (case client_indices_exists name w of
        (Inr response, w1) \<Rightarrow> (Inr response, w1)
      | (Inl error, w1) \<Rightarrow>
          (Inr False, console_error (''Error checking if index '' @ name @ '' exists:'') error w1))"

definition deleteIndex :: "string \<Rightarrow> world \<Rightarrow> (js_error + unit) \<times> world" where
  "deleteIndex name w =
     (case client_indices_delete name w of
        (Inr u, w1) \<Rightarrow> (Inr (), console_log (''Index '' @ name @ '' deleted successfully'') w1)
      | (Inl error, w1) \<Rightarrow>
          (Inl error, console_error (''Error deleting index '' @ name @ '':'') error w1))"

definition createIndex :: "string \<Rightarrow> json \<Rightarrow> world \<Rightarrow> (js_error + unit) \<times> world" where
  "createIndex name mapping w =
     (case client_indices_create name mapping w of
        (Inr acknowledged, w1) \<Rightarrow>
          (if acknowledged
           then (Inr (), console_log (''Index '' @ name @ '' created successfully'') w1)
           else (Inl (Error (''Index creation not acknowledged for '' @ name)),
                 console_error (''Error creating index '' @ name @ '':'')
                   (Error (''Index creation not acknowledged for '' @ name)) w1))
      | (Inl error, w1) \<Rightarrow>
          (Inl error, console_error (''Error creating index '' @ name @ '':'') error w1))"

definition testDocument :: "string \<Rightarrow> json" where
  "testDocument timestamp = JObj
     [(''@timestamp'', JStr timestamp),
      (''service'', JObj [(''name'', JStr ''test'')]),
      (''event'', JObj [(''action'', JStr ''config_change'')]),
      (''message'', JStr ''Test document for index validation''),
      (''trace_id'', JStr ''test-init-001'')]"

definition testIndexWrite :: "initializer \<Rightarrow> string \<Rightarrow> world \<Rightarrow> (js_error + unit) \<times> world" where
  "testIndexWrite this name w =
     (case client_index name (testDocument (now this)) w of
        (Inl error, w1) \<Rightarrow>
          (Inl error, console_error (''Error testing index write to '' @ name @ '':'') error w1)
      | (Inr (successful, doc_id), w1) \<Rightarrow>
          (if successful > 0
           then (case client_delete name doc_id (console_log (''Test write to '' @ name @ '' successful'') w1) of
                   (Inl error, w2) \<Rightarrow>
                     (Inl error, console_error (''Error testing index write to '' @ name @ '':'') error w2)
                 | (Inr u, w2) \<Rightarrow> (Inr (), console_log ''Test document cleaned up'' w2))
           else (Inl (Error (''Test write to '' @ name @ '' failed'')),
                 console_error (''Error testing index write to '' @ name @ '':'')
                   (Error (''Test write to '' @ name @ '' failed'')) w1)))"

text \<open>
  \<open>initializeIndex\<close>. \<open>create_and_test\<close> is what follows the existence check (load
  the mapping, create the index, test a write), \<open>initializeIndex_try\<close> the body of the
  \<open>try\<close>; the \<open>catch\<close> prints the error and throws it again.
\<close>

definition create_and_test ::
  "initializer \<Rightarrow> string \<Rightarrow> string \<Rightarrow> world \<Rightarrow> (js_error + unit) \<times> world" where
  "create_and_test this name path w =
     (case loadIndexMapping this path of
        Inl error \<Rightarrow> (Inl error, w)
      | Inr mapping \<Rightarrow>
          (case createIndex name mapping w of
             (Inl error, w1) \<Rightarrow> (Inl error, w1)
           | (Inr u, w1) \<Rightarrow>
               (case testIndexWrite this name w1 of
                  (Inl error, w2) \<Rightarrow> (Inl error, w2)
                | (Inr u, w2) \<Rightarrow>
                    (Inr (),
                     console_log (''Index initialization completed successfully for '' @ name) w2))))"

definition initializeIndex_try ::
  "initializer \<Rightarrow> string \<Rightarrow> string \<Rightarrow> bool \<Rightarrow> world \<Rightarrow> (js_error + unit) \<times> world" where
  "initializeIndex_try this name path recr w =
     (case checkIndexExists name w of
        (Inl error, w1) \<Rightarrow> (Inl error, w1)
      | (Inr exists, w1) \<Rightarrow>
          (if exists \<and> recr
           then (case deleteIndex name
                        (console_log (''Index '' @ name @ '' exists and recreate=true, deleting...'') w1) of
                   (Inl error, w2) \<Rightarrow> (Inl error, w2)
                 | (Inr u, w2) \<Rightarrow> create_and_test this name path w2)
           else if exists
           then (Inr (), console_log (''Index '' @ name @ '' already exists, skipping creation'') w1)
           else create_and_test this name path w1))"

definition initializeIndex :: "initializer \<Rightarrow> IndexInitOptions \<Rightarrow> world \<Rightarrow> (js_error + unit) \<times> world" where
  "initializeIndex this options w =
     (let name = or_string (indexName options) (env_index this);
          path = or_string (mappingPath options) (default_mapping_path this);
          recr = or_false (recreate options);
          w0 = console_log (''Using mapping from: '' @ path)
                 (console_log (''Initializing Elasticsearch index: '' @ name) w)
      in case initializeIndex_try this name path recr w0 of
           (Inl error, w1) \<Rightarrow>
             (Inl error, console_error (''Index initialization failed for '' @ name @ '':'') error w1)
         | (Inr u, w1) \<Rightarrow> (Inr (), w1))"

text \<open>
  An initializer and two clusters to run the model on: one that holds the target index
  and answers, and the same cluster out of reach. The mapping file is the one of the
  repository's plan for \<open>data/mappings/elastic_index_mapping.json\<close> (its \<open>labels\<close> and
  \<open>metrics\<close> properties left out); \<open>loaded_mapping\<close> is what validation keeps of it.
\<close>

definition mapped_properties :: json where
  "mapped_properties = JObj
     [(''@timestamp'', JObj [(''type'', JStr ''date''),
                             (''format'', JStr ''strict_date_optional_time||epoch_millis'')]),
      (''service'', JObj [(''properties'', JObj
         [(''name'', JObj [(''type'', JStr ''keyword''), (''ignore_above'', JNum 256)])])]),
      (''event'', JObj [(''properties'', JObj
         [(''action'', JObj [(''type'', JStr ''keyword''), (''ignore_above'', JNum 256)])])]),
      (''message'', JObj [(''type'', JStr ''text''), (''analyzer'', JStr ''message_analyzer'')]),
      (''trace_id'', JObj [(''type'', JStr ''keyword''), (''ignore_above'', JNum 256)])]"

definition index_mapping_file :: json where
  "index_mapping_file = JObj
     [(''settings'', JObj
         [(''number_of_shards'', JNum 1),
          (''number_of_replicas'', JNum 1),
          (''analysis'', JObj [(''analyzer'', JObj [(''message_analyzer'', JObj
             [(''type'', JStr ''standard''), (''stopwords'', JStr ''_none_'')])])])]),
      (''mappings'', JObj [(''properties'', mapped_properties)])]"

definition loaded_mapping :: json where
  "loaded_mapping = JObj
     [(''settings'', JObj [(''number_of_shards'', JNum 1), (''number_of_replicas'', JNum 1)]),
      (''mappings'', JObj [(''properties'', mapped_properties)])]"

definition sample_initializer :: initializer where
  "sample_initializer =
     \<lparr>env_index = ''causalops-logs'', host = node_platform,
      read_json = (\<lambda>path. if path = ''/repo/data/mappings/elastic_index_mapping.json''
                           then Inr index_mapping_file else Inl (FileError path)),
      default_mapping_path = ''/repo/data/mappings/elastic_index_mapping.json'',
      now = ''2025-09-18T10:00:00.000Z''\<rparr>"

definition default_options :: IndexInitOptions where
  "default_options = \<lparr>indexName = None, mappingPath = None, recreate = None\<rparr>"

text \<open>Options that name a mapping file the initializer cannot read.\<close>

definition missing_mapping_options :: IndexInitOptions where
  "missing_mapping_options =
     \<lparr>indexName = None, mappingPath = Some ''/nonexistent.json'', recreate = None\<rparr>"

definition seeded_cluster :: world where
  "seeded_cluster =
     \<lparr>indices = [''causalops-logs'' \<mapsto> \<lparr>body = JObj [], docs = [(0, sampleLogDocument)]\<rparr>],
      next_id = 1, outcomes = [], requests = [], console = []\<rparr>"

definition unreachable_cluster :: world where
  "unreachable_cluster = seeded_cluster\<lparr>outcomes := [Fail ConnectionError, Fail ConnectionError]\<rparr>"

section \<open>Start-up of the agent (startup.ts, the agent's env.ts and index.ts)\<close>










section \<open>The diagnosis pipeline of the specification\<close>

text \<open>
  The repository's sources hold the environment, schema and index code modelled above;
  the diagnosis pipeline (evidence assembler, schema validator, causal graph
  synthesizer) is described by the specification and the design documents only. The
  definitions of this section follow the specification's words; each says what it
  stands in for.
\<close>

subsection \<open>Data model\<close>

text \<open>
  The named patterns are the three of \<open>packages/eql/src/index.ts\<close> (\<open>EQL_PATTERNS\<close>),
  each with the event action it selects.
\<close>

datatype pattern = CONFIG_CHANGE | DB_POOL_EXHAUSTION | LATENCY_HOTSPOT

fun EQL_PATTERNS :: "pattern \<Rightarrow> string" where
  "EQL_PATTERNS CONFIG_CHANGE = ''config_change.eql''"
| "EQL_PATTERNS DB_POOL_EXHAUSTION = ''db_pool_exhaustion.eql''"
| "EQL_PATTERNS LATENCY_HOTSPOT = ''latency_hotspot.eql''"

definition all_patterns :: "pattern list" where
  "all_patterns = [CONFIG_CHANGE, DB_POOL_EXHAUSTION, LATENCY_HOTSPOT]"

text \<open>
  Modelled from the spec: one observability event of its data model (section 3), for
  which no source file declares a type of its own. Times are seconds. A hit carries
  the index and document id its deep-link identifier is derived from.
\<close>

record EventHit =
  hit_timestamp :: nat
  hit_service :: string
  hit_action :: string
  hit_message :: string
  hit_trace_id :: "string option"
  hit_index :: string
  hit_document :: string

text \<open>
  Modelled from the spec: the time window of a diagnosis request (section 3), which no
  source file declares: its two ends, in seconds.
\<close>

type_synonym time_window = "nat \<times> nat"

text \<open>
  Modelled from the spec: the evidence of one named pattern (section 3), which no source
  file declares: the pattern and its hits, each under its deep-link identifier.
\<close>

record PatternEvidence =
  patternName :: pattern
  hits :: "(string \<times> EventHit) list"

text \<open>
  Modelled from the spec: the evidence bundle (section 3), which no source file
  declares: the evidence of every named pattern, and the window it was assembled for.
\<close>

record EvidenceBundle =
  evidence :: "PatternEvidence list"
  resolved_window :: time_window

text \<open>
  Modelled from the spec: the confidence of an edge or a runbook step (section 3), which
  no source file declares.
\<close>

datatype confidence = high | medium | low

text \<open>
  Modelled from the spec: a node of the causal graph (section 3), which no source file
  declares.
\<close>

record GraphNode =
  node_id :: string
  node_label :: string

text \<open>
  Modelled from the spec: an edge of the causal graph (section 3), which no source file
  declares.
\<close>

record GraphEdge =
  edge_from :: string
  edge_to :: string
  evidenceIds :: "string list"
  edge_confidence :: confidence

text \<open>
  Modelled from the spec: the causal graph (section 3), which no source file declares.
\<close>

record CausalGraph =
  nodes :: "GraphNode list"
  edges :: "GraphEdge list"
  missingSignals :: "string list option"

text \<open>
  Modelled from the spec: a step of the runbook plan (section 3), which no source file
  declares.
\<close>

record RunbookStep =
  step_title :: string
  step_command :: string
  step_rationale :: string
  requiresConfirmation :: bool
  step_confidence :: confidence

text \<open>
  Modelled from the spec: the runbook plan (section 3), which no source file declares.
\<close>

record RunbookPlan =
  summary :: string
  steps :: "RunbookStep list"

text \<open>
  Modelled from the spec: a violation (section 4.3), which no source file declares: a
  field path with a reason.
\<close>

type_synonym violation = "path_elem list \<times> string"

text \<open>
  Modelled from the spec: the error taxonomy of section 7, which no source file
  declares.
\<close>

datatype pipeline_error =
    StoreUnavailable
  | QueryError
  | GenerationUnavailable
  | SchemaViolation "violation list"
  | InvariantViolation

subsection \<open>Evidence store adapter and evidence assembler\<close>

text \<open>
  Modelled from the spec: the window test of the evidence store adapter (section 4.1),
  which no source file implements: the hit's time lies between the two ends of the
  window. The store itself is a parameter of the adapter, a function that answers a
  pattern query with hits or fails.
\<close>

definition in_window :: "time_window \<Rightarrow> EventHit \<Rightarrow> bool" where
  "in_window w h = (fst w \<le> hit_timestamp h \<and> hit_timestamp h \<le> snd w)"

text \<open>
  Modelled from the spec: the adapter's query (section 4.1), which no source file
  implements: the store's answer for the pattern, restricted to the window and capped;
  the store's failure is passed on.
\<close>

definition query ::
  "(pattern \<Rightarrow> time_window \<Rightarrow> pipeline_error + EventHit list) \<Rightarrow> nat \<Rightarrow> pattern \<Rightarrow> time_window
     \<Rightarrow> pipeline_error + EventHit list" where
  "query store cap p w =
     (case store p w of
        Inl e \<Rightarrow> Inl e
      | Inr hs \<Rightarrow> Inr (take cap (filter (in_window w) hs)))"

text \<open>
  Modelled from the spec: the deep-link identifier of a hit (section 4.2), which no
  source file implements: derived from its index and document id.
\<close>

definition deep_link_id :: "EventHit \<Rightarrow> string" where
  "deep_link_id h = hit_index h @ ''/'' @ hit_document h"


text \<open>
  Modelled from the spec: the assembler's step for one pattern (section 4.2), which no
  source file implements: a failed query gives the pattern an empty hit list.
\<close>

definition pattern_evidence ::
  "(pattern \<Rightarrow> time_window \<Rightarrow> pipeline_error + EventHit list) \<Rightarrow> nat \<Rightarrow> time_window \<Rightarrow> pattern
     \<Rightarrow> PatternEvidence" where
  "pattern_evidence store cap w p =
     \<lparr>patternName = p,
      hits = (case query store cap p w of
                Inl e \<Rightarrow> []
              | Inr hs \<Rightarrow> map (\<lambda>h. (deep_link_id h, h)) hs)\<rparr>"


text \<open>
  Modelled from the spec: the hit list a bundle holds for one pattern (section 3), an
  accessor no source file declares.
\<close>

definition hits_of :: "EvidenceBundle \<Rightarrow> pattern \<Rightarrow> (string \<times> EventHit) list" where
  "hits_of b p = concat (map hits (filter (\<lambda>e. patternName e = p) (evidence b)))"

text \<open>
  Modelled from the spec: the total evidence of a bundle across all patterns (section
  4.4), an accessor no source file declares.
\<close>

definition all_hits :: "EvidenceBundle \<Rightarrow> (string \<times> EventHit) list" where
  "all_hits b = concat (map hits (evidence b))"

subsection \<open>Schema validator\<close>

text \<open>
  Modelled from the spec: the schema tree of the schema validator (section 4.3, design
  note 2), which no source file implements. An array carries its length cap, an object
  its fields with a flag for the required ones.
\<close>

datatype schema =
    SString
  | SBoolean
  | SEnum "string list"
  | SArray schema "nat option"
  | SObject "(string \<times> bool \<times> schema) list"

text \<open>
  Modelled from the spec: the traversal of the schema validator (section 4.3), which no
  source file implements: the violations of a raw value against a schema, each with its
  field path. No case converts a value.
\<close>

function (sequential) check :: "path_elem list \<Rightarrow> schema \<Rightarrow> json \<Rightarrow> violation list"
and check_fields :: "path_elem list \<Rightarrow> (string \<times> bool \<times> schema) list \<Rightarrow> json \<Rightarrow> violation list"
and check_items :: "path_elem list \<Rightarrow> schema \<Rightarrow> nat \<Rightarrow> json list \<Rightarrow> violation list"
where
  "check p SString v = (case v of JStr s \<Rightarrow> [] | _ \<Rightarrow> [(p, ''expected a string'')])"
| "check p SBoolean v = (case v of JBool b \<Rightarrow> [] | _ \<Rightarrow> [(p, ''expected a boolean'')])"
| "check p (SEnum vs) v =
     (case v of
        JStr s \<Rightarrow> (if s \<in> set vs then [] else [(p, ''value outside the declared set'')])
      | _ \<Rightarrow> [(p, ''expected a string'')])"
| "check p (SArray s cap) v =
     (case v of
        JArr xs \<Rightarrow>
          (case cap of
             None \<Rightarrow> []
           | Some n \<Rightarrow> (if length xs > n then [(p, ''array longer than its cap'')] else []))
          @ check_items p s 0 xs
      | _ \<Rightarrow> [(p, ''expected an array'')])"
| "check p (SObject fs) v =
     (case v of
        JObj kvs \<Rightarrow> check_fields p fs (JObj kvs)
      | _ \<Rightarrow> [(p, ''expected an object'')])"
| "check_fields p [] d = []"
| "check_fields p ((k, required, s) # fs) d =
     (case jfield d k of
        None \<Rightarrow> (if required then [(p @ [Key k], ''required field is missing'')] else [])
      | Some x \<Rightarrow> check (p @ [Key k]) s x)
     @ check_fields p fs d"
| "check_items p s i [] = []"
| "check_items p s i (x # xs) = check (p @ [Idx i]) s x @ check_items p s (Suc i) xs"
  by pat_completeness auto

termination
  apply (relation "inv_image (less_than <*lex*> less_than)
    (\<lambda>x. case x of
        Inl (p, s, v) \<Rightarrow> (Suc (size s), 0)
      | Inr (Inl (p, fs, d)) \<Rightarrow> (Suc (size_list (size_prod (\<lambda>_. 0) (size_prod (\<lambda>_. 0) size)) fs), 0)
      | Inr (Inr (p, s, i, xs)) \<Rightarrow> (Suc (size s), Suc (length xs)))")
  apply auto
  done

text \<open>
  Modelled from the spec: the declared set of the confidence enum (section 3), which
  no source file declares.
\<close>

definition confidence_labels :: "string list" where
  "confidence_labels = [''high'', ''medium'', ''low'']"

text \<open>
  Modelled from the spec: the declared schema of the causal graph (sections 3 and 4.3),
  which no source file declares: at most 8 nodes and 10 edges.
\<close>

definition graph_schema :: schema where
  "graph_schema = SObject
     [(''nodes'', True, SArray (SObject
         [(''id'', True, SString),
          (''label'', True, SString)]) (Some 8)),
      (''edges'', True, SArray (SObject
         [(''from'', True, SString),
          (''to'', True, SString),
          (''evidenceIds'', True, SArray SString None),
          (''confidence'', True, SEnum confidence_labels)]) (Some 10)),
      (''missingSignals'', False, SArray SString None)]"

text \<open>
  Modelled from the spec: the declared schema of the runbook plan (sections 3 and 4.3),
  which no source file declares: at most 6 steps.
\<close>

definition runbook_schema :: schema where
  "runbook_schema = SObject
     [(''summary'', True, SString),
      (''steps'', True, SArray (SObject
         [(''title'', True, SString),
          (''command'', True, SString),
          (''rationale'', True, SString),
          (''requiresConfirmation'', True, SBoolean),
          (''confidence'', True, SEnum confidence_labels)]) (Some 6))]"

text \<open>
  Modelled from the spec: the schema kind \<open>validate\<close> is called with
  (section 4.3), which no source file declares.
\<close>

datatype schema_kind = GraphKind | RunbookKind

text \<open>
  Modelled from the spec: the declared schema of each schema kind (section 4.3), which
  no source file declares.
\<close>

fun schema_of :: "schema_kind \<Rightarrow> schema" where
  "schema_of GraphKind = graph_schema"
| "schema_of RunbookKind = runbook_schema"

text \<open>
  Modelled from the spec: the typed value a valid raw value is read into (section
  4.3), which no source file declares. Reading takes each field as it stands; a field
  of another type is never converted, the reading fails instead.
\<close>

datatype typed_value = TypedGraph CausalGraph | TypedPlan RunbookPlan

text \<open>
  Modelled from the spec: the reading of a string field (section 4.3), which no source
  file implements: any other value is refused, never converted.
\<close>

fun as_string :: "json option \<Rightarrow> string option" where
  "as_string (Some (JStr s)) = Some s"
| "as_string _ = None"

text \<open>
  Modelled from the spec: the reading of a boolean field (section 4.3), which no source
  file implements: any other value is refused, never converted.
\<close>

fun as_boolean :: "json option \<Rightarrow> bool option" where
  "as_boolean (Some (JBool b)) = Some b"
| "as_boolean _ = None"

text \<open>
  Modelled from the spec: the reading of a confidence field (section 4.3), which no
  source file implements: one of the three labels, or refused.
\<close>

fun as_confidence :: "json option \<Rightarrow> confidence option" where
  "as_confidence (Some (JStr s)) =
     (if s = ''high'' then Some high else if s = ''medium'' then Some medium
      else if s = ''low'' then Some low else None)"
| "as_confidence _ = None"

text \<open>
  Modelled from the spec: the label of a confidence (section 3), which no source file
  declares.
\<close>

fun confidence_label :: "confidence \<Rightarrow> string" where
  "confidence_label high = ''high''"
| "confidence_label medium = ''medium''"
| "confidence_label low = ''low''"

text \<open>
  Modelled from the spec: the reading of a list of fields (section 4.3), which no source
  file implements: it fails as soon as one element does.
\<close>

fun all_some :: "'a option list \<Rightarrow> 'a list option" where
  "all_some [] = Some []"
| "all_some (None # xs) = None"
| "all_some (Some x # xs) = map_option ((#) x) (all_some xs)"

text \<open>
  Modelled from the spec: the reading of an array of strings (section 4.3), which no
  source file implements.
\<close>

fun as_strings :: "json option \<Rightarrow> string list option" where
  "as_strings (Some (JArr xs)) = all_some (map (\<lambda>x. as_string (Some x)) xs)"
| "as_strings _ = None"

text \<open>
  Modelled from the spec: the reading of a graph node from a raw value (section 4.3),
  which no source file implements.
\<close>

definition read_node :: "json \<Rightarrow> GraphNode option" where
  "read_node v =
     (case (as_string (jfield v ''id''), as_string (jfield v ''label'')) of
        (Some i, Some l) \<Rightarrow> Some \<lparr>node_id = i, node_label = l\<rparr>
      | _ \<Rightarrow> None)"

text \<open>
  Modelled from the spec: the reading of a graph edge from a raw value (section 4.3),
  which no source file implements.
\<close>

definition read_edge :: "json \<Rightarrow> GraphEdge option" where
  "read_edge v =
     (case (as_string (jfield v ''from''), as_string (jfield v ''to''),
            as_strings (jfield v ''evidenceIds''), as_confidence (jfield v ''confidence'')) of
        (Some f, Some t, Some ids, Some c) \<Rightarrow>
          Some \<lparr>edge_from = f, edge_to = t, evidenceIds = ids, edge_confidence = c\<rparr>
      | _ \<Rightarrow> None)"

text \<open>
  Modelled from the spec: the reading of a runbook step from a raw value (section 4.3),
  which no source file implements.
\<close>

definition read_step :: "json \<Rightarrow> RunbookStep option" where
  "read_step v =
     (case (as_string (jfield v ''title''), as_string (jfield v ''command''),
            as_string (jfield v ''rationale''), as_boolean (jfield v ''requiresConfirmation''),
            as_confidence (jfield v ''confidence'')) of
        (Some t, Some c, Some r, Some q, Some k) \<Rightarrow>
          Some \<lparr>step_title = t, step_command = c, step_rationale = r,
                requiresConfirmation = q, step_confidence = k\<rparr>
      | _ \<Rightarrow> None)"

text \<open>
  Modelled from the spec: the reading of an array field, element by element (section
  4.3), which no source file implements.
\<close>

fun read_list :: "(json \<Rightarrow> 'a option) \<Rightarrow> json option \<Rightarrow> 'a list option" where
  "read_list f (Some (JArr xs)) = all_some (map f xs)"
| "read_list f _ = None"

text \<open>
  Modelled from the spec: the reading of a causal graph from a raw value (section 4.3),
  which no source file implements; the optional \<open>missingSignals\<close> is absent
  when the field is.
\<close>

definition read_graph :: "json \<Rightarrow> CausalGraph option" where
  "read_graph v =
     (case (read_list read_node (jfield v ''nodes''), read_list read_edge (jfield v ''edges'')) of
        (Some ns, Some es) \<Rightarrow>
          Some \<lparr>nodes = ns, edges = es, missingSignals = as_strings (jfield v ''missingSignals'')\<rparr>
      | _ \<Rightarrow> None)"

text \<open>
  Modelled from the spec: the reading of a runbook plan from a raw value (section 4.3),
  which no source file implements.
\<close>

definition read_plan :: "json \<Rightarrow> RunbookPlan option" where
  "read_plan v =
     (case (as_string (jfield v ''summary''), read_list read_step (jfield v ''steps'')) of
        (Some s, Some ss) \<Rightarrow> Some \<lparr>summary = s, steps = ss\<rparr>
      | _ \<Rightarrow> None)"

text \<open>
  Modelled from the spec: the typed value of a raw value at a schema kind (section 4.3),
  which no source file implements.
\<close>

fun read_typed :: "schema_kind \<Rightarrow> json \<Rightarrow> typed_value option" where
  "read_typed GraphKind v = map_option TypedGraph (read_graph v)"
| "read_typed RunbookKind v = map_option TypedPlan (read_plan v)"

text \<open>
  Modelled from the spec: \<open>validate(rawValue, schemaKind)\<close> of section 4.3, which no
  source file implements: a typed value or the list of violations.
\<close>

definition validate :: "json \<Rightarrow> schema_kind \<Rightarrow> violation list + typed_value" where
  "validate rawValue schemaKind =
     (case check [] (schema_of schemaKind) rawValue of
        [] \<Rightarrow> (case read_typed schemaKind rawValue of
                 Some t \<Rightarrow> Inr t
               | None \<Rightarrow> Inl [([], ''value cannot be read at its declared type'')])
      | vs \<Rightarrow> Inl vs)"

subsection \<open>Causal graph synthesizer\<close>

text \<open>
  Modelled from the spec: the generative model interface (section 6), which no source
  file implements. The generator is a parameter. A request carries the evidence, the
  schema kind, the temperature and, on the retry, the violations as corrective
  context.
\<close>

record generation_request =
  request_evidence :: EvidenceBundle
  request_schema :: schema_kind
  temperature :: rat
  corrective_context :: "violation list"

text \<open>
  Modelled from the spec: the generator's answer (section 6), which no source file
  declares: raw JSON, or the generator cannot be reached.
\<close>

datatype generation_reply = Unreachable | RawJSON json

text \<open>
  Modelled from the spec: the request the synthesizer sends for a graph (sections 4.4
  and 6), which no source file implements: temperature 0.2, and the violations of the
  first attempt on the retry.
\<close>

definition graph_request :: "EvidenceBundle \<Rightarrow> violation list \<Rightarrow> generation_request" where
  "graph_request b vs =
     \<lparr>request_evidence = b, request_schema = GraphKind, temperature = 2 / 10,
      corrective_context = vs\<rparr>"

text \<open>
  Modelled from the spec: the first half of the structural check of the Validating
  state (section 4.4), which no source file implements: every edge's endpoints are ids
  of declared nodes.
\<close>

definition endpoints_declared :: "CausalGraph \<Rightarrow> bool" where
  "endpoints_declared g =
     list_all (\<lambda>e. edge_from e \<in> set (map node_id (nodes g))
                 \<and> edge_to e \<in> set (map node_id (nodes g))) (edges g)"

text \<open>
  Modelled from the spec: the nodes without an incoming edge, the first step of a round
  of the topological sort (design note 3), which no source file implements.
\<close>

definition sources :: "string list \<Rightarrow> (string \<times> string) list \<Rightarrow> string list" where
  "sources ns es = filter (\<lambda>n. n \<notin> snd ` set es) ns"

text \<open>
  Modelled from the spec: the topological sort of design note 3, which no source file
  implements: it succeeds when every edge has been removed, and fails when edges remain
  and no node is free of incoming edges.
\<close>

function topological :: "string list \<Rightarrow> (string \<times> string) list \<Rightarrow> bool" where
  "topological ns es =
     (if es = [] then True
      else if sources ns es = [] then False
      else topological (filter (\<lambda>n. n \<notin> set (sources ns es)) ns)
             (filter (\<lambda>(a, b). a \<notin> set (sources ns es)) es))"
  by pat_completeness auto

termination
proof (relation "measure (\<lambda>(ns, es). length ns)")
  show "wf (measure (\<lambda>(ns, es). length ns))" by simp
next
  fix ns :: "string list" and es :: "(string \<times> string) list"
  assume "sources ns es \<noteq> []"
  then obtain x where x: "x \<in> set (sources ns es)" by (cases "sources ns es") auto
  then have "x \<in> set ns" by (simp add: sources_def)
  with x have "length (filter (\<lambda>n. n \<notin> set (sources ns es)) ns) < length ns"
    by (intro length_filter_less [of x]) auto
  then show "((filter (\<lambda>n. n \<notin> set (sources ns es)) ns,
               filter (\<lambda>(a, b). a \<notin> set (sources ns es)) es), ns, es)
             \<in> measure (\<lambda>(ns, es). length ns)"
    by simp
qed

declare topological.simps [simp del]

text \<open>
  Modelled from the spec: the edges of a graph as pairs of node ids (section 3), an
  accessor no source file declares.
\<close>

definition edge_pairs :: "CausalGraph \<Rightarrow> (string \<times> string) list" where
  "edge_pairs g = map (\<lambda>e. (edge_from e, edge_to e)) (edges g)"

text \<open>
  Modelled from the spec: the structural invariant of an accepted graph (sections 3 and
  4.4), which no source file implements: endpoints declared, and no cycle.
\<close>

definition dag_invariant :: "CausalGraph \<Rightarrow> bool" where
  "dag_invariant g = (endpoints_declared g \<and> topological (map node_id (nodes g)) (edge_pairs g))"

text \<open>
  Modelled from the spec: the Validating state (section 4.4), which no source file
  implements: the schema validator, then the structural check.
\<close>

definition validating :: "json \<Rightarrow> pipeline_error + CausalGraph" where
  "validating raw =
     (case validate raw GraphKind of
        Inl vs \<Rightarrow> Inl (SchemaViolation vs)
      | Inr (TypedGraph g) \<Rightarrow> (if dag_invariant g then Inr g else Inl InvariantViolation)
      | Inr (TypedPlan p) \<Rightarrow> Inl InvariantViolation)"

text \<open>
  Modelled from the spec: the corrective context of the retry (section 4.4), which no
  source file implements: the violations of the rejected attempt.
\<close>

fun violations_of :: "pipeline_error \<Rightarrow> violation list" where
  "violations_of (SchemaViolation vs) = vs"
| "violations_of e = [([], ''the graph is not a directed acyclic graph over its nodes'')]"

text \<open>
  Modelled from the spec: the minimal graph of the Fallback state (section 4.4), which
  no source file implements: a node for each of the first three distinct event actions
  present in the evidence, no edge, and a \<open>missingSignals\<close> note, here the patterns
  without hits.
\<close>

definition minimal_graph :: "EvidenceBundle \<Rightarrow> CausalGraph" where
  "minimal_graph b =
     \<lparr>nodes = map (\<lambda>a. \<lparr>node_id = a, node_label = a\<rparr>)
                (take 3 (remdups (map (\<lambda>(i, h). hit_action h) (all_hits b)))),
      edges = [],
      missingSignals = Some (map EQL_PATTERNS (filter (\<lambda>p. hits_of b p = []) all_patterns))\<rparr>"

text \<open>
  Modelled from the spec: the states of the synthesizer (section 4.4), which no source
  file implements:
  \<open>Idle \<rightarrow> Requesting \<rightarrow> Validating \<rightarrow> {Accepted | Repairing \<rightarrow> Validating | Fallback}\<close>.
\<close>

datatype synth_state = Idle | Requesting | Validating | Accepted | Repairing | Fallback

text \<open>
  Modelled from the spec: a run of the synthesizer (section 4.4), which no source file
  implements: the states gone through, the number of generator calls, and the result.
\<close>

record synthesis =
  trace :: "synth_state list"
  generator_calls :: nat
  returned :: "pipeline_error + CausalGraph"

text \<open>
  Modelled from the spec: the causal graph synthesizer (section 4.4), which no source
  file implements: empty evidence goes to Fallback at once; otherwise one request, one
  retry at most with the violations, then Fallback.
\<close>

definition synthesize :: "(generation_request \<Rightarrow> generation_reply) \<Rightarrow> EvidenceBundle \<Rightarrow> synthesis" where
  "synthesize gen b =
     (if all_hits b = []
      then \<lparr>trace = [Idle, Fallback], generator_calls = 0, returned = Inr (minimal_graph b)\<rparr>
      else
        (case gen (graph_request b []) of
           Unreachable \<Rightarrow>
             \<lparr>trace = [Idle, Requesting], generator_calls = 1, returned = Inl GenerationUnavailable\<rparr>
         | RawJSON r1 \<Rightarrow>
             (case validating r1 of
                Inr g \<Rightarrow>
                  \<lparr>trace = [Idle, Requesting, Validating, Accepted], generator_calls = 1,
                   returned = Inr g\<rparr>
              | Inl e1 \<Rightarrow>
                  (case gen (graph_request b (violations_of e1)) of
                     Unreachable \<Rightarrow>
                       \<lparr>trace = [Idle, Requesting, Validating, Repairing], generator_calls = 2,
                        returned = Inl GenerationUnavailable\<rparr>
                   | RawJSON r2 \<Rightarrow>
                       (case validating r2 of
                          Inr g \<Rightarrow>
                            \<lparr>trace = [Idle, Requesting, Validating, Repairing, Validating, Accepted],
                             generator_calls = 2, returned = Inr g\<rparr>
                        | Inl e2 \<Rightarrow>
                            \<lparr>trace = [Idle, Requesting, Validating, Repairing, Validating, Fallback],
                             generator_calls = 2, returned = Inr (minimal_graph b)\<rparr>)))))"

subsection \<open>Diagnosis entry point\<close>


text \<open>
  Modelled from the spec: the result of a diagnosis (section 6), which no source file
  declares: \<open>{timeframe, evidence, graph}\<close>.
\<close>

record diagnosis =
  timeframe :: time_window
  diagnosis_evidence :: EvidenceBundle
  graph :: CausalGraph


subsection \<open>The end-to-end scenario\<close>

text \<open>
  Modelled from the spec: a hit of the seeded scenario of section 8 (\<open>config_change\<close>,
  then \<open>db_pool_low\<close>, then \<open>latency_spike\<close>), which no source file holds.
\<close>

definition seeded_hit :: "nat \<Rightarrow> string \<Rightarrow> string \<Rightarrow> EventHit" where
  "seeded_hit t a d =
     \<lparr>hit_timestamp = t, hit_service = ''api'', hit_action = a, hit_message = a,
      hit_trace_id = None, hit_index = ''causalops-logs'', hit_document = d\<rparr>"

text \<open>
  Modelled from the spec: the store of the seeded scenario (section 8), which no source
  file holds: one hit per pattern, in causal order.
\<close>

fun seeded_store :: "pattern \<Rightarrow> time_window \<Rightarrow> pipeline_error + EventHit list" where
  "seeded_store CONFIG_CHANGE w = Inr [seeded_hit 100 ''config_change'' ''d1'']"
| "seeded_store DB_POOL_EXHAUSTION w = Inr [seeded_hit 200 ''db_pool_low'' ''d2'']"
| "seeded_store LATENCY_HOTSPOT w = Inr [seeded_hit 300 ''latency_spike'' ''d3'']"


text \<open>
  Modelled from the spec: a store without hits (section 8, the empty-evidence case),
  which no source file holds.
\<close>

definition silent_store :: "pattern \<Rightarrow> time_window \<Rightarrow> pipeline_error + EventHit list" where
  "silent_store p w = Inr []"

text \<open>
  Modelled from the spec: the raw graph the generator answers with in the seeded
  scenario (section 8), which no source file holds.
\<close>

definition seeded_graph_json :: json where
  "seeded_graph_json = JObj
     [(''nodes'', JArr
         [JObj [(''id'', JStr ''n1''), (''label'', JStr ''Config hash changed (api)'')],
          JObj [(''id'', JStr ''n2''), (''label'', JStr ''DB pool low (api)'')],
          JObj [(''id'', JStr ''n3''), (''label'', JStr ''Latency spike (api)'')]]),
      (''edges'', JArr
         [JObj [(''from'', JStr ''n1''), (''to'', JStr ''n2''),
                (''evidenceIds'', JArr [JStr ''causalops-logs/d1'']), (''confidence'', JStr ''high'')],
          JObj [(''from'', JStr ''n2''), (''to'', JStr ''n3''),
                (''evidenceIds'', JArr [JStr ''causalops-logs/d2'']), (''confidence'', JStr ''medium'')]])]"

text \<open>
  Modelled from the spec: a raw graph whose optional \<open>missingSignals\<close> is a string and
  not an array of strings (section 4.3, a wrong primitive type), which no source file
  holds.
\<close>

definition mistyped_graph_json :: json where
  "mistyped_graph_json = JObj
     [(''nodes'', JArr []), (''edges'', JArr []), (''missingSignals'', JStr ''none'')]"

text \<open>
  Modelled from the spec: the typed graph of the seeded scenario (section 8), which no
  source file holds.
\<close>

definition seeded_graph :: CausalGraph where
  "seeded_graph =
     \<lparr>nodes = [\<lparr>node_id = ''n1'', node_label = ''Config hash changed (api)''\<rparr>,
               \<lparr>node_id = ''n2'', node_label = ''DB pool low (api)''\<rparr>,
               \<lparr>node_id = ''n3'', node_label = ''Latency spike (api)''\<rparr>],
      edges = [\<lparr>edge_from = ''n1'', edge_to = ''n2'', evidenceIds = [''causalops-logs/d1''],
                edge_confidence = high\<rparr>,
               \<lparr>edge_from = ''n2'', edge_to = ''n3'', evidenceIds = [''causalops-logs/d2''],
                edge_confidence = medium\<rparr>],
      missingSignals = None\<rparr>"

text \<open>
  Modelled from the spec: a generator that always answers with the seeded graph (section
  8), which no source file holds.
\<close>

definition scripted_generator :: "generation_request \<Rightarrow> generation_reply" where
  "scripted_generator r = RawJSON seeded_graph_json"

text \<open>
  Modelled from the spec: the evidence bundle the assembler builds from the seeded store
  (section 8), which no source file holds.
\<close>

definition seeded_bundle :: EvidenceBundle where
  "seeded_bundle =
     \<lparr>evidence = map (pattern_evidence seeded_store 100 (0, 600)) all_patterns,
      resolved_window = (0, 600)\<rparr>"

text \<open>
  Modelled from the spec: the evidence bundle the assembler builds from the store
  without hits (section 8), which no source file holds.
\<close>

definition silent_bundle :: EvidenceBundle where
  "silent_bundle =
     \<lparr>evidence = map (pattern_evidence silent_store 100 (0, 600)) all_patterns,
      resolved_window = (0, 600)\<rparr>"



section \<open>Properties of the zod model\<close>

lemma finish_not_Inl_Nil: "finish is v \<noteq> Inl []"
  by (simp add: finish_def)

lemma finish_Inr_iff: "finish is v = Inr w \<longleftrightarrow> is = [] \<and> w = v"
  by (auto simp: finish_def)

lemma isl_finish: "isl (finish is v) \<longleftrightarrow> is \<noteq> []"
  by (simp add: finish_def)

lemma zparse_issues_nonempty_aux:
  fixes shape :: "(string \<times> zschema) list" and d :: json and ks vs s' :: zschema
    and kvs :: "(string \<times> json) list" and i :: nat and xs :: "json list"
  shows "zparse P p s v \<noteq> Inl []"
    and "zparse_union P p opts v \<noteq> Inl []"
    and "True" and "True" and "True"
  by (induction P p s v and P p opts v and P p shape d and P p ks vs kvs and P p s' i xs
      rule: zparse_zparse_union_zparse_shape_zparse_entries_zparse_items.induct)
     (auto simp: finish_not_Inl_Nil split: option.splits json.splits sum.splits prod.splits)

lemmas zparse_issues_nonempty = zparse_issues_nonempty_aux(1,2)

lemma zparse_shape_ok_iff:
  "fst (zparse_shape P p shape d) = [] \<longleftrightarrow>
     (\<forall>(k, s) \<in> set shape. \<not> isl (zparse P (p @ [Key k]) s (jfield d k)))"
  by (induction shape) (auto simp: zparse_issues_nonempty split: prod.splits sum.splits option.splits)

lemma zparse_entries_ok_iff:
  "fst (zparse_entries P p ks vs kvs) = [] \<longleftrightarrow>
     (\<forall>(k, x) \<in> set kvs. \<not> isl (zparse P (p @ [Key k]) ks (Some (JStr k)))
        \<and> \<not> isl (zparse P (p @ [Key k]) vs (Some x)))"
  by (induction kvs) (auto simp: zparse_issues_nonempty split: prod.splits sum.splits option.splits)

lemma zparse_shape_out:
  "distinct (map fst shape) \<Longrightarrow> zparse_shape P p shape d = ([], out) \<Longrightarrow>
   map_of out k = (case map_of shape k of None \<Rightarrow> None
                   | Some s \<Rightarrow> (case zparse P (p @ [Key k]) s (jfield d k) of Inr r \<Rightarrow> r | Inl _ \<Rightarrow> None))"
proof (induction shape arbitrary: out)
  case Nil
  then show ?case by simp
next
  case (Cons a shape)
  obtain k' s' where a: "a = (k', s')" by (cases a)
  obtain is0 out0 where r: "zparse_shape P p shape d = (is0, out0)"
    by (cases "zparse_shape P p shape d")
  from Cons.prems a have fresh: "map_of shape k' = None" and dist: "distinct (map fst shape)"
    by (auto simp: map_of_eq_None_iff)
  show ?case
  proof (cases "zparse P (p @ [Key k']) s' (jfield d k')")
    case (Inl is')
    with Cons.prems a r zparse_issues_nonempty(1) [of P "p @ [Key k']" s' "jfield d k'"]
    show ?thesis by auto
  next
    case (Inr res)
    with Cons.prems a r have is0: "is0 = []"
      by (auto split: option.splits)
    note IH = Cons.IH [OF dist r [unfolded is0], of ]
    show ?thesis
    proof (cases res)
      case None
      with Cons.prems a r Inr have "out = out0" by simp
      with IH fresh a Inr None show ?thesis
        by (cases "k = k'") (simp_all del: map_of_eq_Some_iff)
    next
      case (Some x)
      with Cons.prems a r Inr have "out = (k', x) # out0" by simp
      with IH fresh a Inr Some show ?thesis
        by (cases "k = k'") (simp_all del: map_of_eq_Some_iff)
    qed
  qed
qed


lemma zparse_object_ok_iff:
  "\<not> isl (zparse P p (ZObject shape) v) \<longleftrightarrow>
     (\<exists>kvs. v = Some (JObj kvs) \<and>
        (\<forall>(k, s) \<in> set shape. \<not> isl (zparse P (p @ [Key k]) s (map_of kvs k))))"
proof (cases v)
  case None
  then show ?thesis by simp
next
  case (Some x)
  show ?thesis
  proof (cases x)
    case (JObj kvs)
    obtain iss out where r: "zparse_shape P p shape (JObj kvs) = (iss, out)"
      by (cases "zparse_shape P p shape (JObj kvs)")
    from zparse_shape_ok_iff [of P p shape "JObj kvs"] r
    have "iss = [] \<longleftrightarrow> (\<forall>(k, s) \<in> set shape. \<not> isl (zparse P (p @ [Key k]) s (map_of kvs k)))"
      by simp
    with Some JObj r show ?thesis by (simp add: isl_finish)
  qed (simp_all add: Some)
qed

lemma zparse_record_ok_iff:
  "\<not> isl (zparse P p (ZRecord ks vs) v) \<longleftrightarrow>
     (\<exists>kvs. v = Some (JObj kvs) \<and>
        (\<forall>(k, x) \<in> set kvs. \<not> isl (zparse P (p @ [Key k]) ks (Some (JStr k)))
           \<and> \<not> isl (zparse P (p @ [Key k]) vs (Some x))))"
proof (cases v)
  case None
  then show ?thesis by simp
next
  case (Some x)
  show ?thesis
  proof (cases x)
    case (JObj kvs)
    obtain iss out where r: "zparse_entries P p ks vs kvs = (iss, out)"
      by (cases "zparse_entries P p ks vs kvs")
    from zparse_entries_ok_iff [of P p ks vs kvs] r
    have "iss = [] \<longleftrightarrow> (\<forall>(k, x) \<in> set kvs. \<not> isl (zparse P (p @ [Key k]) ks (Some (JStr k)))
           \<and> \<not> isl (zparse P (p @ [Key k]) vs (Some x)))"
      by simp
    with Some JObj r show ?thesis by (simp add: isl_finish)
  qed (simp_all add: Some)
qed

lemma zparse_object_out:
  assumes "zparse P p (ZObject shape) v = Inr r" and "distinct (map fst shape)"
  shows "\<exists>kvs out. v = Some (JObj kvs) \<and> r = Some (JObj out) \<and>
           (\<forall>k. map_of out k = (case map_of shape k of None \<Rightarrow> None
               | Some s \<Rightarrow> (case zparse P (p @ [Key k]) s (map_of kvs k) of Inr r \<Rightarrow> r | Inl _ \<Rightarrow> None)))"
proof (cases v)
  case None
  with assms show ?thesis by simp
next
  case (Some x)
  show ?thesis
  proof (cases x)
    case (JObj kvs)
    obtain iss out where q: "zparse_shape P p shape (JObj kvs) = (iss, out)"
      by (cases "zparse_shape P p shape (JObj kvs)")
    with assms Some JObj have e: "iss = []" "r = Some (JObj out)"
      by (auto simp: finish_Inr_iff)
    have "map_of out k = (case map_of shape k of None \<Rightarrow> None
               | Some s \<Rightarrow> (case zparse P (p @ [Key k]) s (map_of kvs k) of Inr r \<Rightarrow> r | Inl _ \<Rightarrow> None))" for k
      using zparse_shape_out [OF assms(2) q [unfolded e(1)], of k]
      by (simp cong: option.case_cong)
    with Some JObj e show ?thesis
      by blast
  qed (use assms Some in simp_all)
qed

section \<open>Log-document validation\<close>

lemma labels_value_ok:
  "\<not> isl (zparse P p (ZUnion [ZString [], ZNumber [], ZBoolean]) (Some x)) \<longleftrightarrow>
     getParsedType x \<in> {t_string, t_number, t_boolean}"
  by (cases x) (simp_all add: finish_def issues_at_def List.map_filter_simps)

lemma metrics_value_ok:
  "\<not> isl (zparse P p (ZUnion [ZNumber [], ZString []]) (Some x)) \<longleftrightarrow>
     getParsedType x \<in> {t_number, t_string}"
  by (cases x) (simp_all add: finish_def issues_at_def List.map_filter_simps)

lemma record_key_ok: "\<not> isl (zparse P p (ZString []) (Some (JStr k)))"
  by (simp add: finish_def issues_at_def List.map_filter_simps)

lemma LabelsSchema_ok_iff:
  "\<not> isl (zparse P p (ZOptional LabelsSchema) v) \<longleftrightarrow>
     (case v of None \<Rightarrow> True
      | Some l \<Rightarrow> (\<exists>es. l = JObj es \<and>
          (\<forall>(k, x) \<in> set es. getParsedType x \<in> {t_string, t_number, t_boolean})))"
proof (cases v)
  case None
  then show ?thesis by simp
next
  case (Some l)
  have "\<not> isl (zparse P p (ZOptional LabelsSchema) (Some l)) \<longleftrightarrow> \<not> isl (zparse P p LabelsSchema (Some l))"
    by simp
  also have "\<dots> \<longleftrightarrow> (\<exists>es. l = JObj es \<and>
          (\<forall>(k, x) \<in> set es. getParsedType x \<in> {t_string, t_number, t_boolean}))"
    unfolding LabelsSchema_def zparse_record_ok_iff labels_value_ok
    by (simp add: record_key_ok del: zparse.simps)
  finally show ?thesis using Some by simp
qed

lemma MetricsSchema_ok_iff:
  "\<not> isl (zparse P p (ZOptional MetricsSchema) v) \<longleftrightarrow>
     (case v of None \<Rightarrow> True
      | Some l \<Rightarrow> (\<exists>es. l = JObj es \<and>
          (\<forall>(k, x) \<in> set es. getParsedType x \<in> {t_number, t_string})))"
proof (cases v)
  case None
  then show ?thesis by simp
next
  case (Some l)
  have "\<not> isl (zparse P p (ZOptional MetricsSchema) (Some l)) \<longleftrightarrow> \<not> isl (zparse P p MetricsSchema (Some l))"
    by simp
  also have "\<dots> \<longleftrightarrow> (\<exists>es. l = JObj es \<and>
          (\<forall>(k, x) \<in> set es. getParsedType x \<in> {t_number, t_string}))"
    unfolding MetricsSchema_def zparse_record_ok_iff metrics_value_ok
    by (simp add: record_key_ok del: zparse.simps)
  finally show ?thesis using Some by simp
qed


lemma map_of_filter_keys:
  "map_of (filter (\<lambda>(k, v). Q k) kvs) k = (if Q k then map_of kvs k else None)"
  by (induction kvs) auto

lemma LogDocument_ok_iff:
  "\<not> isl (parse P LogDocumentSchema (Some doc)) \<longleftrightarrow>
     (\<exists>kvs. doc = JObj kvs
        \<and> \<not> isl (zparse P [Key ''@timestamp''] (ZString [SDatetime]) (map_of kvs ''@timestamp''))
        \<and> \<not> isl (zparse P [Key ''service''] ServiceSchema (map_of kvs ''service''))
        \<and> \<not> isl (zparse P [Key ''event''] EventSchema (map_of kvs ''event''))
        \<and> \<not> isl (zparse P [Key ''message''] (ZString [SMax 1024]) (map_of kvs ''message''))
        \<and> \<not> isl (zparse P [Key ''trace_id''] (ZOptional (ZString [SMax 256])) (map_of kvs ''trace_id''))
        \<and> \<not> isl (zparse P [Key ''labels''] (ZOptional LabelsSchema) (map_of kvs ''labels''))
        \<and> \<not> isl (zparse P [Key ''metrics''] (ZOptional MetricsSchema) (map_of kvs ''metrics'')))"
  unfolding parse_def LogDocumentSchema_def zparse_object_ok_iff
  by (simp del: zparse.simps)

text \<open>
  Claim C7, as the code has it. A raw document validates exactly when it validates
  with its \<open>labels\<close> and \<open>metrics\<close> deleted and, in addition, \<open>labels\<close>, if present,
  is an object all of whose values are strings, numbers or booleans, and \<open>metrics\<close>,
  if present, is an object all of whose values are numbers or strings; the keys are
  arbitrary. So an entry holding an object, an array or \<open>null\<close> makes validation
  fail, and so does a boolean under \<open>metrics\<close>.
\<close>

theorem labels_metrics_values:
  "\<not> isl (parse P LogDocumentSchema (Some doc)) \<longleftrightarrow>
     \<not> isl (parse P LogDocumentSchema (Some (jremove [''labels'', ''metrics''] doc)))
   \<and> (case jfield doc ''labels'' of None \<Rightarrow> True
      | Some l \<Rightarrow> (\<exists>es. l = JObj es \<and>
          (\<forall>(k, x) \<in> set es. getParsedType x \<in> {t_string, t_number, t_boolean})))
   \<and> (case jfield doc ''metrics'' of None \<Rightarrow> True
      | Some m \<Rightarrow> (\<exists>es. m = JObj es \<and>
          (\<forall>(k, x) \<in> set es. getParsedType x \<in> {t_number, t_string})))"
proof (cases doc)
  case (JObj kvs)
  show ?thesis
    unfolding JObj LogDocument_ok_iff LabelsSchema_ok_iff MetricsSchema_ok_iff
    by (auto simp add: map_of_filter_keys simp del: zparse.simps)
qed (simp_all add: LogDocument_ok_iff)

lemma datetimeRegex_sample: "datetimeRegex ''2025-09-18T10:00:00.000Z''"
  by code_simp

lemmas run_zod = parse_def finish_def issues_at_def List.map_filter_simps
  EventActionSchema_def LabelsSchema_def MetricsSchema_def ServiceSchema_def EventSchema_def
  LogDocumentSchema_def node_platform_def datetimeRegex_sample

text \<open>
  The sample document of the source validates without its labels and metrics, and
  with them.
\<close>

theorem labels_metrics_values_witness:
  "\<not> isl (parse node_platform LogDocumentSchema (Some (jremove [''labels'', ''metrics''] sampleLogDocument)))
   \<and> \<not> isl (parse node_platform LogDocumentSchema (Some sampleLogDocument))"
proof -
  have h: "\<not> isl (parse node_platform LogDocumentSchema (Some (jremove [''labels'', ''metrics''] sampleLogDocument)))"
    by (simp add: run_zod sampleLogDocument_def)
  from labels_metrics_values [of node_platform sampleLogDocument] show ?thesis
    using h by (simp add: sampleLogDocument_def)
qed

text \<open>
  Claim C7 as stated fails: not every scalar value is accepted. A boolean is a scalar,
  the document below validates with its boolean label when \<open>metrics\<close> is deleted,
  and it is rejected with the boolean metric.
\<close>

theorem boolean_metric_rejected:
  "getParsedType (JBool True) = t_boolean
   \<and> \<not> isl (parse node_platform LogDocumentSchema (Some (jremove [''metrics''] boolean_metric_document)))
   \<and> isl (parse node_platform LogDocumentSchema (Some boolean_metric_document))"
  by (simp add: run_zod boolean_metric_document_def)

lemma EventAction_ok_iff:
  "\<not> isl (zparse P p EventActionSchema v) \<longleftrightarrow>
     (\<exists>a \<in> {''config_change'', ''db_pool_low'', ''latency_spike''}. v = Some (JStr a))"
  by (cases v; cases "the v") (auto simp: EventActionSchema_def)

text \<open>
  Claim C6. Whenever log-document validation succeeds on a raw document, the
  document's \<open>event.action\<close> is one of \<open>config_change\<close>, \<open>db_pool_low\<close>,
  \<open>latency_spike\<close>, and the accepted (typed) document carries that same action.
\<close>

theorem log_document_action_closed:
  assumes "parse P LogDocumentSchema (Some doc) = Inr out"
  shows "\<exists>a \<in> {''config_change'', ''db_pool_low'', ''latency_spike''}.
           jpath doc [''event'', ''action''] = Some (JStr a)
         \<and> (\<exists>d. out = Some d \<and> jpath d [''event'', ''action''] = Some (JStr a))"
proof -
  from assms have ok: "\<not> isl (parse P LogDocumentSchema (Some doc))" by simp
  then obtain kvs where doc: "doc = JObj kvs"
    and ev: "\<not> isl (zparse P [Key ''event''] EventSchema (map_of kvs ''event''))"
    unfolding LogDocument_ok_iff by blast
  from ev obtain ekvs where e: "map_of kvs ''event'' = Some (JObj ekvs)"
    and act: "\<not> isl (zparse P [Key ''event'', Key ''action''] EventActionSchema (map_of ekvs ''action''))"
    unfolding EventSchema_def zparse_object_ok_iff by (auto simp del: zparse.simps)
  from act obtain a where a: "a \<in> {''config_change'', ''db_pool_low'', ''latency_spike''}"
    and av: "map_of ekvs ''action'' = Some (JStr a)"
    unfolding EventAction_ok_iff by blast
  have pa: "zparse P [Key ''event'', Key ''action''] EventActionSchema (Some (JStr a)) = Inr (Some (JStr a))"
    using a by (auto simp: EventActionSchema_def)
  from ev e obtain r where r: "zparse P [Key ''event''] EventSchema (Some (JObj ekvs)) = Inr r"
    by (cases "zparse P [Key ''event''] EventSchema (Some (JObj ekvs))") auto
  from zparse_object_out [OF r [unfolded EventSchema_def]] obtain eout
    where eo: "r = Some (JObj eout)" and ea: "map_of eout ''action'' = Some (JStr a)"
    using av pa by (auto simp del: zparse.simps)
  from assms doc have "zparse P [] (ZObject
     [(''@timestamp'', ZString [SDatetime]),
      (''service'', ServiceSchema),
      (''event'', EventSchema),
      (''message'', ZString [SMax 1024]),
      (''trace_id'', ZOptional (ZString [SMax 256])),
      (''labels'', ZOptional LabelsSchema),
      (''metrics'', ZOptional MetricsSchema)]) (Some (JObj kvs)) = Inr out"
    by (simp add: parse_def LogDocumentSchema_def)
  from zparse_object_out [OF this] obtain dout
    where d: "out = Some (JObj dout)" and de: "map_of dout ''event'' = Some (JObj eout)"
    using e r eo by (auto simp del: zparse.simps)
  from doc e av d de ea a show ?thesis
    by auto
qed

text \<open>The sample document of the source is accepted unchanged; its action is \<open>latency_spike\<close>.\<close>

theorem log_document_action_closed_witness:
  "parse node_platform LogDocumentSchema (Some sampleLogDocument) = Inr (Some sampleLogDocument)
   \<and> jpath sampleLogDocument [''event'', ''action''] = Some (JStr ''latency_spike'')"
proof -
  have h: "parse node_platform LogDocumentSchema (Some sampleLogDocument) = Inr (Some sampleLogDocument)"
    by (simp add: run_zod sampleLogDocument_def)
  from log_document_action_closed [OF h] show ?thesis
    using h by (auto simp: sampleLogDocument_def)
qed

section \<open>Environment validation: the credentials rule\<close>

lemma agentEnvSchema_shape:
  "agentEnvSchema = ZObject
    [(''NODE_ENV'', ZDefault (ZEnum [''development'', ''production'', ''test'']) (JStr ''development'')),
     (''AGENT_PORT'', ZDefault (ZNumber [NInt, NMin 1, NMax 65535]) (JNum 3001)),
     (''GCP_PROJECT_ID'', ZString [SMin 1]),
     (''GOOGLE_APPLICATION_CREDENTIALS'', ZOptional (ZString [])),
     (''ELASTIC_CLOUD_ID'', ZOptional (ZString [])),
     (''ELASTIC_API_KEY'', ZOptional (ZString [])),
     (''ELASTIC_NODE'', ZOptional (ZString [SUrl])),
     (''ELASTIC_USERNAME'', ZOptional (ZString [])),
     (''ELASTIC_PASSWORD'', ZOptional (ZString [])),
     (''ELASTIC_INDEX'', ZDefault (ZString []) (JStr ''causalops-logs''))]"
  by (simp add: agentEnvSchema_def baseEnvSchema_def)

lemma optional_string_out:
  assumes "zparse P p (ZOptional (ZString cs)) v = Inr r"
  shows "r = v"
proof (cases v)
  case None
  with assms show ?thesis by simp
next
  case (Some x)
  with assms show ?thesis
    by (cases x) (auto simp: finish_Inr_iff)
qed

lemma optional_string_case:
  assumes "\<not> isl (zparse P p (ZOptional (ZString cs)) v)"
  shows "(case zparse P p (ZOptional (ZString cs)) v of Inl x \<Rightarrow> None | Inr r \<Rightarrow> r) = v"
proof (cases "zparse P p (ZOptional (ZString cs)) v")
  case (Inl a)
  with assms show ?thesis by (simp del: zparse.simps)
next
  case (Inr r)
  from optional_string_out [OF Inr] have "r = v" .
  then show ?thesis unfolding Inr by simp
qed

lemma map_of_env_object:
  "map_of (map (\<lambda>(k, v). (k, JStr v)) env) k = map_option JStr (map_of env k)"
  by (induction env) auto

lemma truthy_env: "truthy (map_option JStr (map_of env k)) = set_nonempty env k"
  by (cases "map_of env k") (simp_all add: set_nonempty_def)

lemma agent_parsed_fields:
  assumes "parse P agentEnvSchema (Some (env_object env)) = Inr parsed"
  shows "\<exists>out. parsed = Some (JObj out)
     \<and> map_of out ''ELASTIC_CLOUD_ID'' = map_option JStr (map_of env ''ELASTIC_CLOUD_ID'')
     \<and> map_of out ''ELASTIC_API_KEY'' = map_option JStr (map_of env ''ELASTIC_API_KEY'')
     \<and> map_of out ''ELASTIC_NODE'' = map_option JStr (map_of env ''ELASTIC_NODE'')
     \<and> map_of out ''ELASTIC_USERNAME'' = map_option JStr (map_of env ''ELASTIC_USERNAME'')
     \<and> map_of out ''ELASTIC_PASSWORD'' = map_option JStr (map_of env ''ELASTIC_PASSWORD'')"
proof -
  let ?kvs = "map (\<lambda>(k, v). (k, JStr v)) env"
  from assms have p: "zparse P [] agentEnvSchema (Some (JObj ?kvs)) = Inr parsed"
    by (simp add: parse_def env_object_def)
  then have "\<not> isl (zparse P [] agentEnvSchema (Some (JObj ?kvs)))" by simp
  then have ok: "\<not> isl (zparse P [Key k] (ZOptional (ZString cs)) (map_of ?kvs k))"
    if "(k, ZOptional (ZString cs)) \<in> set [(''ELASTIC_CLOUD_ID'', ZOptional (ZString [])),
     (''ELASTIC_API_KEY'', ZOptional (ZString [])),
     (''ELASTIC_NODE'', ZOptional (ZString [SUrl])),
     (''ELASTIC_USERNAME'', ZOptional (ZString [])),
     (''ELASTIC_PASSWORD'', ZOptional (ZString []))]" for k cs
    using that unfolding agentEnvSchema_shape zparse_object_ok_iff
    by (auto simp del: zparse.simps)
  from zparse_object_out [OF p [unfolded agentEnvSchema_shape]]
  obtain out where out: "parsed = Some (JObj out)"
    and f: "\<And>k. map_of out k =
      (case map_of [(''NODE_ENV'', ZDefault (ZEnum [''development'', ''production'', ''test'']) (JStr ''development'')),
     (''AGENT_PORT'', ZDefault (ZNumber [NInt, NMin 1, NMax 65535]) (JNum 3001)),
     (''GCP_PROJECT_ID'', ZString [SMin 1]),
     (''GOOGLE_APPLICATION_CREDENTIALS'', ZOptional (ZString [])),
     (''ELASTIC_CLOUD_ID'', ZOptional (ZString [])),
     (''ELASTIC_API_KEY'', ZOptional (ZString [])),
     (''ELASTIC_NODE'', ZOptional (ZString [SUrl])),
     (''ELASTIC_USERNAME'', ZOptional (ZString [])),
     (''ELASTIC_PASSWORD'', ZOptional (ZString [])),
     (''ELASTIC_INDEX'', ZDefault (ZString []) (JStr ''causalops-logs''))] k of None \<Rightarrow> None
       | Some s \<Rightarrow> (case zparse P ([] @ [Key k]) s (map_of ?kvs k) of Inl x \<Rightarrow> None | Inr r \<Rightarrow> r))"
    by auto
  have "map_of out ''ELASTIC_CLOUD_ID'' = map_of ?kvs ''ELASTIC_CLOUD_ID''"
    using f [of "''ELASTIC_CLOUD_ID''"] optional_string_case [OF ok [of "''ELASTIC_CLOUD_ID''" "[]"]]
    by (simp del: zparse.simps)
  moreover have "map_of out ''ELASTIC_API_KEY'' = map_of ?kvs ''ELASTIC_API_KEY''"
    using f [of "''ELASTIC_API_KEY''"] optional_string_case [OF ok [of "''ELASTIC_API_KEY''" "[]"]]
    by (simp del: zparse.simps)
  moreover have "map_of out ''ELASTIC_NODE'' = map_of ?kvs ''ELASTIC_NODE''"
    using f [of "''ELASTIC_NODE''"] optional_string_case [OF ok [of "''ELASTIC_NODE''" "[SUrl]"]]
    by (simp del: zparse.simps)
  moreover have "map_of out ''ELASTIC_USERNAME'' = map_of ?kvs ''ELASTIC_USERNAME''"
    using f [of "''ELASTIC_USERNAME''"] optional_string_case [OF ok [of "''ELASTIC_USERNAME''" "[]"]]
    by (simp del: zparse.simps)
  moreover have "map_of out ''ELASTIC_PASSWORD'' = map_of ?kvs ''ELASTIC_PASSWORD''"
    using f [of "''ELASTIC_PASSWORD''"] optional_string_case [OF ok [of "''ELASTIC_PASSWORD''" "[]"]]
    by (simp del: zparse.simps)
  ultimately show ?thesis using out by (simp add: map_of_env_object)
qed

lemma jfield_spread_with: "jfield (spread_with a k v) k = Some v"
  by (cases a) (simp_all add: map_add_def map_of_filter_keys)

text \<open>
  Claim C8. For every process environment that passes the parse of the agent schema,
  \<open>validateAgentEnvironment\<close> throws exactly when neither credential set is complete:
  not both of \<open>ELASTIC_CLOUD_ID\<close> and \<open>ELASTIC_API_KEY\<close> set non-empty, and not all of
  \<open>ELASTIC_NODE\<close>, \<open>ELASTIC_USERNAME\<close> and \<open>ELASTIC_PASSWORD\<close> set non-empty. When it
  returns, \<open>elasticsearch.type\<close> is \<open>cloud\<close> if both cloud credentials are set
  non-empty and \<open>local\<close> otherwise. What it throws is the \<open>Error\<close> that names the
  missing credentials.
\<close>

theorem validateAgentEnvironment_credentials:
  assumes "parse P agentEnvSchema (Some (env_object env)) = Inr parsed"
  shows "(isl (validateAgentEnvironment P env) \<longleftrightarrow>
           \<not> (set_nonempty env ''ELASTIC_CLOUD_ID'' \<and> set_nonempty env ''ELASTIC_API_KEY''
              \<or> set_nonempty env ''ELASTIC_NODE'' \<and> set_nonempty env ''ELASTIC_USERNAME''
                  \<and> set_nonempty env ''ELASTIC_PASSWORD''))
       \<and> (isl (validateAgentEnvironment P env) \<longrightarrow>
             validateAgentEnvironment P env = Inl (Error missing_credentials))
       \<and> (\<forall>r. validateAgentEnvironment P env = Inr r \<longrightarrow>
             jpath r [''elasticsearch'', ''type''] =
               Some (JStr (if set_nonempty env ''ELASTIC_CLOUD_ID'' \<and> set_nonempty env ''ELASTIC_API_KEY''
                           then ''cloud'' else ''local'')))"
proof -
  from agent_parsed_fields [OF assms] obtain out where out: "parsed = Some (JObj out)"
    and f: "map_of out ''ELASTIC_CLOUD_ID'' = map_option JStr (map_of env ''ELASTIC_CLOUD_ID'')"
      "map_of out ''ELASTIC_API_KEY'' = map_option JStr (map_of env ''ELASTIC_API_KEY'')"
      "map_of out ''ELASTIC_NODE'' = map_option JStr (map_of env ''ELASTIC_NODE'')"
      "map_of out ''ELASTIC_USERNAME'' = map_option JStr (map_of env ''ELASTIC_USERNAME'')"
      "map_of out ''ELASTIC_PASSWORD'' = map_option JStr (map_of env ''ELASTIC_PASSWORD'')"
    by blast
  show ?thesis
    unfolding validateAgentEnvironment_def assms out
    by (simp add: f truthy_env Let_def jfield_spread_with object_literal_def List.map_filter_simps
          del: spread_with.simps)
qed


text \<open>
  The local environment passes the parse, has the three local credentials and no cloud
  credentials, and is accepted with type \<open>local\<close>.
\<close>

theorem validateAgentEnvironment_credentials_witness:
  "\<not> isl (parse node_platform agentEnvSchema (Some (env_object local_env)))
   \<and> \<not> set_nonempty local_env ''ELASTIC_CLOUD_ID''
   \<and> set_nonempty local_env ''ELASTIC_NODE''
   \<and> set_nonempty local_env ''ELASTIC_USERNAME''
   \<and> set_nonempty local_env ''ELASTIC_PASSWORD''
   \<and> \<not> isl (validateAgentEnvironment node_platform local_env)
   \<and> (\<exists>r. validateAgentEnvironment node_platform local_env = Inr r
          \<and> jpath r [''elasticsearch'', ''type''] = Some (JStr ''local''))"
proof -
  have ok: "\<not> isl (parse node_platform agentEnvSchema (Some (env_object local_env)))"
    by code_simp
  then obtain parsed
    where h: "parse node_platform agentEnvSchema (Some (env_object local_env)) = Inr parsed"
    by (cases "parse node_platform agentEnvSchema (Some (env_object local_env))") auto
  have s: "\<not> set_nonempty local_env ''ELASTIC_CLOUD_ID''" "set_nonempty local_env ''ELASTIC_NODE''"
    "set_nonempty local_env ''ELASTIC_USERNAME''" "set_nonempty local_env ''ELASTIC_PASSWORD''"
    by (simp_all add: set_nonempty_def local_env_def)
  from validateAgentEnvironment_credentials [OF h] s ok show ?thesis
    by (cases "validateAgentEnvironment node_platform local_env") auto
qed

text \<open>
  A further property of the agent schema. The process environment holds strings and
  \<open>AGENT_PORT\<close> is declared \<open>z.number()\<close>, which converts nothing: whenever
  \<open>AGENT_PORT\<close> is set, whatever its value, \<open>validateAgentEnvironment\<close> throws a
  \<open>ZodError\<close>. The port can only take its default.
\<close>

theorem agent_port_always_rejected:
  assumes "map_of env ''AGENT_PORT'' = Some v"
  shows "\<exists>issues. validateAgentEnvironment P env = Inl (ZodError issues)"
proof -
  have "isl (zparse P [Key ''AGENT_PORT''] (ZDefault (ZNumber [NInt, NMin 1, NMax 65535]) (JNum 3001))
          (map_of (map (\<lambda>(k, v). (k, JStr v)) env) ''AGENT_PORT''))"
    using assms by (simp add: map_of_env_object)
  then have "\<not> \<not> isl (zparse P [] agentEnvSchema (Some (JObj (map (\<lambda>(k, v). (k, JStr v)) env))))"
    unfolding agentEnvSchema_shape zparse_object_ok_iff
    by (simp del: zparse.simps)
  then have "isl (zparse P [] agentEnvSchema (Some (JObj (map (\<lambda>(k, v). (k, JStr v)) env))))"
    by blast
  then show ?thesis
    by (cases "zparse P [] agentEnvSchema (Some (JObj (map (\<lambda>(k, v). (k, JStr v)) env)))")
       (simp_all add: validateAgentEnvironment_def parse_def env_object_def del: zparse.simps)
qed

text \<open>The local environment is accepted; with \<open>AGENT_PORT=3001\<close> added it is rejected.\<close>

theorem agent_port_always_rejected_witness:
  "map_of ((''AGENT_PORT'', ''3001'') # local_env) ''AGENT_PORT'' = Some ''3001''
   \<and> \<not> isl (validateAgentEnvironment node_platform local_env)
   \<and> isl (validateAgentEnvironment node_platform ((''AGENT_PORT'', ''3001'') # local_env))"
proof -
  have a: "map_of ((''AGENT_PORT'', ''3001'') # local_env) ''AGENT_PORT'' = Some ''3001''" by simp
  have b: "\<not> isl (validateAgentEnvironment node_platform local_env)" by code_simp
  from agent_port_always_rejected [OF a, of node_platform] a b show ?thesis by auto
qed

section \<open>Index initialisation: the existence check\<close>

lemma next_outcome_console_log [simp]: "next_outcome (console_log m w) = next_outcome w"
  by (simp add: next_outcome_def console_log_def)

lemma indices_console_log [simp]: "indices (console_log m w) = indices w"
  by (simp add: console_log_def)

lemma requests_console_log [simp]: "requests (console_log m w) = requests w"
  by (simp add: console_log_def)

lemma indices_console_error [simp]: "indices (console_error m e w) = indices w"
  by (simp add: console_error_def)

lemma indices_send [simp]: "indices (send r w) = indices w"
  by (simp add: send_def)

lemma checkIndexExists_answered:
  "\<forall>e. next_outcome w \<noteq> Fail e \<Longrightarrow>
   checkIndexExists name w = (Inr (indices w name \<noteq> None), send (Exists name) w)"
  by (cases "next_outcome w") (simp_all add: checkIndexExists_def client_indices_exists_def)

lemma checkIndexExists_failed:
  "next_outcome w = Fail e \<Longrightarrow>
   checkIndexExists name w =
     (Inr False, console_error (''Error checking if index '' @ name @ '' exists:'') e (send (Exists name) w))"
  by (simp add: checkIndexExists_def client_indices_exists_def)

lemma next_outcome_console_error [simp]: "next_outcome (console_error m e w) = next_outcome w"
  by (simp add: next_outcome_def console_error_def)

lemma requests_console_error [simp]: "requests (console_error m e w) = requests w"
  by (simp add: console_error_def)

lemma requests_send [simp]: "requests (send r w) = requests w @ [r]"
  by (simp add: send_def)

lemma createIndex_existing:
  assumes "indices w name \<noteq> None"
  shows "createIndex name m w =
     (Inl (case next_outcome w of Fail e \<Rightarrow> e
           | _ \<Rightarrow> ResponseError 400 ''resource_already_exists_exception''),
      console_error (''Error creating index '' @ name @ '':'')
        (case next_outcome w of Fail e \<Rightarrow> e
         | _ \<Rightarrow> ResponseError 400 ''resource_already_exists_exception'')
        (send (CreateIndex name m) w))"
  using assms
  by (cases "next_outcome w") (auto simp: createIndex_def client_indices_create_def)

lemma create_and_test_existing:
  assumes "indices w name \<noteq> None"
  shows "create_and_test this name path w =
     (case loadIndexMapping this path of
        Inl error \<Rightarrow> (Inl error, w)
      | Inr m \<Rightarrow>
          (Inl (case next_outcome w of Fail e \<Rightarrow> e
                | _ \<Rightarrow> ResponseError 400 ''resource_already_exists_exception''),
           console_error (''Error creating index '' @ name @ '':'')
             (case next_outcome w of Fail e \<Rightarrow> e
              | _ \<Rightarrow> ResponseError 400 ''resource_already_exists_exception'')
             (send (CreateIndex name m) w)))"
  by (simp add: create_and_test_def createIndex_existing [OF assms] split: sum.splits)

text \<open>
  Claim C10. \<open>checkIndexExists\<close> never throws: for every index name and every state
  of the cluster it returns a boolean. When the client call fails it returns
  \<open>false\<close>, which is also its answer for an index that does not exist.
\<close>

theorem checkIndexExists_total:
  "(\<exists>b. fst (checkIndexExists name w) = Inr b)
   \<and> (\<forall>e. next_outcome w = Fail e \<longrightarrow> fst (checkIndexExists name w) = Inr False)
   \<and> (indices w name = None \<longrightarrow> fst (checkIndexExists name w) = Inr False)"
  by (cases "next_outcome w") (auto simp: checkIndexExists_def client_indices_exists_def)

text \<open>
  On the cluster out of reach the index exists and the check answers \<open>false\<close>, as it
  does on the reachable cluster for an index that is not there.
\<close>

theorem checkIndexExists_total_witness:
  "next_outcome unreachable_cluster = Fail ConnectionError
   \<and> indices unreachable_cluster ''causalops-logs'' \<noteq> None
   \<and> fst (checkIndexExists ''causalops-logs'' unreachable_cluster) = Inr False
   \<and> indices seeded_cluster ''no-such-index'' = None
   \<and> fst (checkIndexExists ''no-such-index'' seeded_cluster) = Inr False"
  using checkIndexExists_total [of "''causalops-logs''" unreachable_cluster]
    checkIndexExists_total [of "''no-such-index''" seeded_cluster]
  by (simp add: unreachable_cluster_def seeded_cluster_def next_outcome_def)

text \<open>
  Claim C9, as the code has it. Take a call of \<open>initializeIndex\<close> whose target index
  exists, with \<open>recreate\<close> not set. In every case the indices of the cluster, with
  their documents, are left as they were. When the cluster answers the existence
  request, the method returns normally and that request is the only one it sent: no
  index deleted or created, no document written. When the existence request fails,
  \<open>checkIndexExists\<close> reports \<open>false\<close> and the method throws instead of returning. If
  the mapping does not load, it throws the error of the load, the existence request
  being the only one it sent. If the mapping loads, it sends one more request, the
  creation of the index with that mapping, and throws the error of that request: the
  client's own failure, or the cluster's answer that the index already exists.
\<close>

theorem initializeIndex_existing_index:
  assumes "indices w (or_string (indexName options) (env_index this)) \<noteq> None"
    and "\<not> or_false (recreate options)"
  shows "indices (snd (initializeIndex this options w)) = indices w
     \<and> (if \<exists>e. next_outcome w = Fail e
        then (case loadIndexMapping this (or_string (mappingPath options) (default_mapping_path this)) of
                Inl error \<Rightarrow>
                  fst (initializeIndex this options w) = Inl error
                  \<and> requests (snd (initializeIndex this options w))
                      = requests w @ [Exists (or_string (indexName options) (env_index this))]
              | Inr mapping \<Rightarrow>
                  fst (initializeIndex this options w)
                    = Inl (case next_outcome (send (Exists (or_string (indexName options) (env_index this))) w) of
                             Fail e \<Rightarrow> e
                           | _ \<Rightarrow> ResponseError 400 ''resource_already_exists_exception'')
                  \<and> requests (snd (initializeIndex this options w))
                      = requests w @ [Exists (or_string (indexName options) (env_index this)),
                                      CreateIndex (or_string (indexName options) (env_index this)) mapping])
        else fst (initializeIndex this options w) = Inr ()
           \<and> requests (snd (initializeIndex this options w))
               = requests w @ [Exists (or_string (indexName options) (env_index this))])"
proof (cases "\<exists>e. next_outcome w = Fail e")
  case True
  then obtain e where e: "next_outcome w = Fail e" ..
  let ?name = "or_string (indexName options) (env_index this)"
  let ?path = "or_string (mappingPath options) (default_mapping_path this)"
  let ?w0 = "console_log (''Using mapping from: '' @ ?path)
                 (console_log (''Initializing Elasticsearch index: '' @ ?name) w)"
  let ?w1 = "console_error (''Error checking if index '' @ ?name @ '' exists:'') e (send (Exists ?name) ?w0)"
  have "next_outcome ?w0 = Fail e" using e by simp
  from checkIndexExists_failed [OF this]
  have t: "initializeIndex_try this ?name ?path False ?w0 = create_and_test this ?name ?path ?w1"
    by (simp add: initializeIndex_try_def)
  have i: "indices ?w1 ?name \<noteq> None" using assms(1) by simp
  have n: "next_outcome ?w1 = next_outcome (send (Exists ?name) w)"
    by (simp add: next_outcome_def send_def console_log_def console_error_def)
  show ?thesis
  proof (cases "loadIndexMapping this ?path")
    case (Inl err)
    with True assms(2) t create_and_test_existing [OF i, of this ?path] show ?thesis
      by (simp add: initializeIndex_def Let_def)
  next
    case (Inr m)
    with True assms(2) t create_and_test_existing [OF i, of this ?path] n show ?thesis
      by (simp add: initializeIndex_def Let_def)
  qed
next
  case False
  with assms show ?thesis
    by (simp add: initializeIndex_def initializeIndex_try_def Let_def checkIndexExists_answered send_def)
qed

text \<open>
  The reachable cluster holds the target index: one request, a normal return. On the
  cluster out of reach, with a mapping file that is not there, the method throws the
  error of the load after the one existence request.
\<close>

theorem initializeIndex_existing_index_witness:
  "indices seeded_cluster ''causalops-logs'' \<noteq> None
   \<and> fst (initializeIndex sample_initializer default_options seeded_cluster) = Inr ()
   \<and> indices (snd (initializeIndex sample_initializer default_options seeded_cluster)) = indices seeded_cluster
   \<and> requests (snd (initializeIndex sample_initializer default_options seeded_cluster)) = [Exists ''causalops-logs'']
   \<and> indices unreachable_cluster ''causalops-logs'' \<noteq> None
   \<and> next_outcome unreachable_cluster = Fail ConnectionError
   \<and> fst (initializeIndex sample_initializer missing_mapping_options unreachable_cluster)
       = Inl (ErrorWith ''Failed to load index mapping from /nonexistent.json: ''
                (FileError ''/nonexistent.json''))
   \<and> indices (snd (initializeIndex sample_initializer missing_mapping_options unreachable_cluster))
       = indices unreachable_cluster
   \<and> requests (snd (initializeIndex sample_initializer missing_mapping_options unreachable_cluster))
       = [Exists ''causalops-logs'']"
proof -
  have a: "indices seeded_cluster (or_string (indexName default_options) (env_index sample_initializer)) \<noteq> None"
    by (simp add: seeded_cluster_def default_options_def sample_initializer_def)
  have b: "\<not> or_false (recreate default_options)"
    by (simp add: default_options_def)
  have c: "\<not> (\<exists>e. next_outcome seeded_cluster = Fail e)"
    by (simp add: seeded_cluster_def next_outcome_def)
  have a': "indices unreachable_cluster
              (or_string (indexName missing_mapping_options) (env_index sample_initializer)) \<noteq> None"
    by (simp add: unreachable_cluster_def seeded_cluster_def missing_mapping_options_def
        sample_initializer_def)
  have b': "\<not> or_false (recreate missing_mapping_options)"
    by (simp add: missing_mapping_options_def)
  have c': "next_outcome unreachable_cluster = Fail ConnectionError"
    by (simp add: unreachable_cluster_def next_outcome_def)
  have l: "loadIndexMapping sample_initializer
             (or_string (mappingPath missing_mapping_options) (default_mapping_path sample_initializer))
           = Inl (ErrorWith ''Failed to load index mapping from /nonexistent.json: ''
                    (FileError ''/nonexistent.json''))"
    by (simp add: loadIndexMapping_def missing_mapping_options_def sample_initializer_def)
  have n: "or_string (indexName missing_mapping_options) (env_index sample_initializer) = ''causalops-logs''"
    by (simp add: missing_mapping_options_def sample_initializer_def)
  have r: "requests unreachable_cluster = []"
    by (simp add: unreachable_cluster_def seeded_cluster_def)
  from initializeIndex_existing_index [OF a b] a c
  have "indices seeded_cluster ''causalops-logs'' \<noteq> None
   \<and> fst (initializeIndex sample_initializer default_options seeded_cluster) = Inr ()
   \<and> indices (snd (initializeIndex sample_initializer default_options seeded_cluster)) = indices seeded_cluster
   \<and> requests (snd (initializeIndex sample_initializer default_options seeded_cluster)) = [Exists ''causalops-logs'']"
    by (auto simp: seeded_cluster_def default_options_def sample_initializer_def)
  moreover from initializeIndex_existing_index [OF a' b'] a' c' l
  have "indices unreachable_cluster ''causalops-logs'' \<noteq> None
   \<and> fst (initializeIndex sample_initializer missing_mapping_options unreachable_cluster)
       = Inl (ErrorWith ''Failed to load index mapping from /nonexistent.json: ''
                (FileError ''/nonexistent.json''))
   \<and> indices (snd (initializeIndex sample_initializer missing_mapping_options unreachable_cluster))
       = indices unreachable_cluster
   \<and> requests (snd (initializeIndex sample_initializer missing_mapping_options unreachable_cluster))
       = [Exists ''causalops-logs'']"
    by (simp add: n r)
  ultimately show ?thesis using c' by blast
qed

lemma loadIndexMapping_sample:
  "loadIndexMapping sample_initializer ''/repo/data/mappings/elastic_index_mapping.json''
     = Inr loaded_mapping"
  by (simp add: loadIndexMapping_def sample_initializer_def index_mapping_file_def
      loaded_mapping_def mapped_properties_def
      IndexCreationRequestSchema_def parse_def finish_def issues_at_def List.map_filter_simps
      is_integer_def)

text \<open>
  Claim C9 as stated fails. On the cluster out of reach the target index exists and
  \<open>recreate\<close> is not set, yet \<open>initializeIndex\<close> throws the connection error instead of
  returning, after requesting the creation of the index with the mapping it loaded.
\<close>

theorem initializeIndex_unreachable_cluster:
  "indices unreachable_cluster ''causalops-logs'' \<noteq> None
   \<and> or_false (recreate default_options) = False
   \<and> fst (initializeIndex sample_initializer default_options unreachable_cluster) = Inl ConnectionError
   \<and> requests (snd (initializeIndex sample_initializer default_options unreachable_cluster))
       = [Exists ''causalops-logs'', CreateIndex ''causalops-logs'' loaded_mapping]"
proof -
  have p: "or_string (mappingPath default_options) (default_mapping_path sample_initializer)
           = ''/repo/data/mappings/elastic_index_mapping.json''"
    by (simp add: default_options_def sample_initializer_def)
  have n: "or_string (indexName default_options) (env_index sample_initializer) = ''causalops-logs''"
    by (simp add: default_options_def sample_initializer_def)
  show ?thesis
    unfolding initializeIndex_def Let_def p n
    by (simp add: initializeIndex_try_def create_and_test_def loadIndexMapping_sample
        checkIndexExists_def client_indices_exists_def createIndex_def client_indices_create_def
        unreachable_cluster_def seeded_cluster_def default_options_def
        next_outcome_def send_def console_log_def console_error_def)
qed

lemma zparse_shape_keys:
  "set (map fst (snd (zparse_shape P p shape d))) \<subseteq> set (map fst shape)"
proof (induction shape)
  case Nil
  then show ?case by simp
next
  case (Cons a shape)
  obtain k s where a: "a = (k, s)" by (cases a)
  obtain iss out where r: "zparse_shape P p shape d = (iss, out)"
    by (cases "zparse_shape P p shape d")
  with Cons.IH have "set (map fst out) \<subseteq> set (map fst shape)" by simp
  with a r show ?case
    by (cases "zparse P (p @ [Key k]) s (jfield d k)") (auto split: option.splits)
qed

lemma zparse_object_keys:
  assumes "zparse P p (ZObject shape) v = Inr (Some (JObj out))"
  shows "set (map fst out) \<subseteq> set (map fst shape)"
proof -
  from assms obtain kvs where v: "v = Some (JObj kvs)"
    by (cases v; cases "the v") auto
  obtain iss o' where r: "zparse_shape P p shape (JObj kvs) = (iss, o')"
    by (cases "zparse_shape P p shape (JObj kvs)")
  with assms v have "out = o'" by (auto simp: finish_Inr_iff)
  with zparse_shape_keys [of P p shape "JObj kvs"] r show ?thesis by simp
qed

text \<open>
  A further property of \<open>loadIndexMapping\<close>. It returns the mapping as the request
  schema parsed it, and the schema's \<open>settings\<close> object declares two keys only: the
  settings of every mapping it returns hold nothing but \<open>number_of_shards\<close> and
  \<open>number_of_replicas\<close>. Any other setting of the mapping file, such as \<open>analysis\<close>,
  does not reach the index.
\<close>

theorem loadIndexMapping_keeps_two_settings:
  assumes "loadIndexMapping this path = Inr m"
  shows "\<exists>s. jfield m ''settings'' = Some (JObj s)
           \<and> set (map fst s) \<subseteq> {''number_of_shards'', ''number_of_replicas''}"
proof -
  from assms obtain fl r where f: "read_json this path = Inr fl"
    and p: "zparse (host this) [] IndexCreationRequestSchema
              (Some (JObj [(''index'', JStr (env_index this)), (''mapping'', fl)])) = Inr (Some r)"
    and m: "jfield r ''mapping'' = Some m"
    by (auto simp: loadIndexMapping_def parse_def split: sum.splits option.splits Option.bind_splits)
  from zparse_object_out [OF p [unfolded IndexCreationRequestSchema_def]]
  obtain rout where r: "r = JObj rout"
    and rm: "map_of rout ''mapping'' = (case zparse (host this) [Key ''mapping''] (ZObject
         [(''settings'', ZObject
             [(''number_of_shards'', ZDefault (ZNumber [NInt, NPositive]) (JNum 1)),
              (''number_of_replicas'', ZDefault (ZNumber [NInt, NMin 0]) (JNum 1))]),
          (''mappings'', ZObject
             [(''properties'', ZRecord (ZString []) ZAny)])]) (Some fl) of Inl x \<Rightarrow> None | Inr r \<Rightarrow> r)"
    by (auto simp del: zparse.simps)
  from m r rm have mp: "zparse (host this) [Key ''mapping''] (ZObject
         [(''settings'', ZObject
             [(''number_of_shards'', ZDefault (ZNumber [NInt, NPositive]) (JNum 1)),
              (''number_of_replicas'', ZDefault (ZNumber [NInt, NMin 0]) (JNum 1))]),
          (''mappings'', ZObject
             [(''properties'', ZRecord (ZString []) ZAny)])]) (Some fl) = Inr (Some m)"
    by (auto split: sum.splits simp del: zparse.simps)
  from zparse_object_out [OF mp] obtain fkvs mout where fk: "fl = JObj fkvs" and mo: "m = JObj mout"
    and ms: "map_of mout ''settings'' = (case zparse (host this) [Key ''mapping'', Key ''settings''] (ZObject
             [(''number_of_shards'', ZDefault (ZNumber [NInt, NPositive]) (JNum 1)),
              (''number_of_replicas'', ZDefault (ZNumber [NInt, NMin 0]) (JNum 1))])
              (map_of fkvs ''settings'') of Inl x \<Rightarrow> None | Inr r \<Rightarrow> r)"
    by (auto simp del: zparse.simps)
  from mp fk have "\<not> isl (zparse (host this) [Key ''mapping''] (ZObject
         [(''settings'', ZObject
             [(''number_of_shards'', ZDefault (ZNumber [NInt, NPositive]) (JNum 1)),
              (''number_of_replicas'', ZDefault (ZNumber [NInt, NMin 0]) (JNum 1))]),
          (''mappings'', ZObject
             [(''properties'', ZRecord (ZString []) ZAny)])]) (Some (JObj fkvs)))"
    by (simp del: zparse.simps)
  from this [THEN zparse_object_ok_iff [THEN iffD1]]
  have "\<not> isl (zparse (host this) [Key ''mapping'', Key ''settings''] (ZObject
             [(''number_of_shards'', ZDefault (ZNumber [NInt, NPositive]) (JNum 1)),
              (''number_of_replicas'', ZDefault (ZNumber [NInt, NMin 0]) (JNum 1))])
              (map_of fkvs ''settings''))"
    by (auto simp del: zparse.simps)
  then obtain sr where sr: "zparse (host this) [Key ''mapping'', Key ''settings''] (ZObject
             [(''number_of_shards'', ZDefault (ZNumber [NInt, NPositive]) (JNum 1)),
              (''number_of_replicas'', ZDefault (ZNumber [NInt, NMin 0]) (JNum 1))])
              (map_of fkvs ''settings'') = Inr sr"
    by (cases "zparse (host this) [Key ''mapping'', Key ''settings''] (ZObject
             [(''number_of_shards'', ZDefault (ZNumber [NInt, NPositive]) (JNum 1)),
              (''number_of_replicas'', ZDefault (ZNumber [NInt, NMin 0]) (JNum 1))])
              (map_of fkvs ''settings'')") auto
  from zparse_object_out [OF sr] obtain s where s: "sr = Some (JObj s)" by auto
  from zparse_object_keys [OF sr [unfolded s]] have "set (map fst s) \<subseteq> {''number_of_shards'', ''number_of_replicas''}"
    by simp
  with ms sr s mo show ?thesis by (simp del: zparse.simps)
qed


text \<open>The mapping file has an \<open>analysis\<close> setting; the mapping loaded from it has none.\<close>

theorem loadIndexMapping_keeps_two_settings_witness:
  "jpath index_mapping_file [''settings'', ''analysis''] \<noteq> None
   \<and> loadIndexMapping sample_initializer ''/repo/data/mappings/elastic_index_mapping.json''
       = Inr loaded_mapping
   \<and> jpath loaded_mapping [''settings'', ''analysis''] = None"
  using loadIndexMapping_keeps_two_settings [OF loadIndexMapping_sample] loadIndexMapping_sample
  by (simp add: index_mapping_file_def loaded_mapping_def)

text \<open>
  A further property of \<open>initializeIndex\<close>, the other branch of the existence check.
  On a cluster that answers every request normally, with the target index present,
  \<open>recreate\<close> set and a mapping that loads, the method returns normally after five
  requests (exists, delete index, create index, index the test document, delete it),
  and the target index is then the new one: the loaded mapping and no document.
\<close>

theorem initializeIndex_recreate:
  assumes "outcomes w = []"
    and "indices w (or_string (indexName options) (env_index this)) \<noteq> None"
    and "or_false (recreate options)"
    and "loadIndexMapping this (or_string (mappingPath options) (default_mapping_path this)) = Inr m"
  shows "fst (initializeIndex this options w) = Inr ()
     \<and> indices (snd (initializeIndex this options w))
         = (indices w)(or_string (indexName options) (env_index this) \<mapsto> \<lparr>body = m, docs = []\<rparr>)
     \<and> requests (snd (initializeIndex this options w))
         = requests w @
           [Exists (or_string (indexName options) (env_index this)),
            DeleteIndex (or_string (indexName options) (env_index this)),
            CreateIndex (or_string (indexName options) (env_index this)) m,
            IndexDoc (or_string (indexName options) (env_index this)) (testDocument (now this)),
            DeleteDoc (or_string (indexName options) (env_index this)) (next_id w)]"
  using assms
  by (simp add: initializeIndex_def initializeIndex_try_def create_and_test_def Let_def
      checkIndexExists_def client_indices_exists_def deleteIndex_def client_indices_delete_def
      createIndex_def client_indices_create_def testIndexWrite_def client_index_def
      client_delete_def next_outcome_def send_def console_log_def console_error_def)

text \<open>
  The reachable cluster holds a document in the target index; after a recreating
  initialisation the index has the loaded mapping and no document.
\<close>

theorem initializeIndex_recreate_witness:
  "docs (the (indices seeded_cluster ''causalops-logs'')) \<noteq> []
   \<and> fst (initializeIndex sample_initializer (default_options\<lparr>recreate := Some True\<rparr>) seeded_cluster) = Inr ()
   \<and> indices (snd (initializeIndex sample_initializer (default_options\<lparr>recreate := Some True\<rparr>) seeded_cluster))
        ''causalops-logs'' = Some \<lparr>body = loaded_mapping, docs = []\<rparr>"
proof -
  have a: "outcomes seeded_cluster = []" by (simp add: seeded_cluster_def)
  have b: "indices seeded_cluster (or_string (indexName (default_options\<lparr>recreate := Some True\<rparr>))
             (env_index sample_initializer)) \<noteq> None"
    by (simp add: seeded_cluster_def default_options_def sample_initializer_def)
  have c: "or_false (recreate (default_options\<lparr>recreate := Some True\<rparr>))" by simp
  have d: "loadIndexMapping sample_initializer
             (or_string (mappingPath (default_options\<lparr>recreate := Some True\<rparr>))
                (default_mapping_path sample_initializer)) = Inr loaded_mapping"
    using loadIndexMapping_sample by (simp add: default_options_def sample_initializer_def)
  from initializeIndex_recreate [OF a b c d] show ?thesis
    by (simp add: seeded_cluster_def default_options_def sample_initializer_def)
qed

section \<open>Start-up of the agent\<close>







section \<open>The diagnosis pipeline of the specification: properties\<close>

subsection \<open>The topological check finds every cycle\<close>

lemma sources_no_incoming: "set (sources ns es) \<inter> Range (set es) = {}"
proof -
  have "x \<notin> Range (set es)" if "x \<in> set (sources ns es)" for x
  proof
    assume "x \<in> Range (set es)"
    then obtain a where "(a, x) \<in> set es" by auto
    then have "x \<in> snd ` set es" by force
    with that show False by (simp add: sources_def)
  qed
  then show ?thesis by blast
qed

lemma trancl_avoid_sources:
  assumes "S \<inter> Range r = {}" and "(x, y) \<in> r\<^sup>+" and "x \<notin> S"
  shows "(x, y) \<in> {(a, b). (a, b) \<in> r \<and> a \<notin> S}\<^sup>+"
  using assms(2,3)
proof (induction rule: trancl_induct)
  case (base y)
  then show ?case by auto
next
  case (step y z)
  from step.hyps(1) have "y \<in> Range r" by (auto elim: tranclE)
  with assms(1) have "y \<notin> S" by auto
  with step.hyps(2) have "(y, z) \<in> {(a, b). (a, b) \<in> r \<and> a \<notin> S}" by simp
  with step.IH [OF step.prems] show ?case by (rule trancl_into_trancl)
qed

lemma topological_acyclic: "topological ns es \<Longrightarrow> acyclic (set es)"
proof (induction ns es rule: topological.induct)
  case (1 ns es)
  show ?case
  proof (cases "es = []")
    case True
    then show ?thesis by (simp add: acyclic_def)
  next
    case False
    let ?S = "set (sources ns es)"
    let ?es' = "filter (\<lambda>(a, b). a \<notin> ?S) es"
    from "1.prems" have "if es = [] then True
      else if sources ns es = [] then False
      else topological (filter (\<lambda>n. n \<notin> ?S) ns) ?es'"
      by (subst (asm) topological.simps) simp
    with False have ne: "sources ns es \<noteq> []"
      and t: "topological (filter (\<lambda>n. n \<notin> ?S) ns) ?es'"
      by (simp_all split: if_splits)
    from "1.IH" [OF False ne t] have acyc: "acyclic (set ?es')" .
    have eq: "set ?es' = {(a, b). (a, b) \<in> set es \<and> a \<notin> ?S}" by auto
    show ?thesis
      unfolding acyclic_def
    proof (intro allI notI)
      fix x assume c: "(x, x) \<in> (set es)\<^sup>+"
      then have "x \<in> Range (set es)" by (auto elim: tranclE)
      with sources_no_incoming [of ns es] have "x \<notin> ?S" by auto
      from trancl_avoid_sources [OF sources_no_incoming c this]
      have "(x, x) \<in> (set ?es')\<^sup>+" unfolding eq .
      with acyc show False by (simp add: acyclic_def)
    qed
  qed
qed

subsection \<open>Schema validator\<close>

lemma as_string_Some: "as_string x = Some s \<longleftrightarrow> x = Some (JStr s)"
  by (cases x rule: as_string.cases) auto

lemma as_boolean_Some: "as_boolean x = Some b \<longleftrightarrow> x = Some (JBool b)"
  by (cases x rule: as_boolean.cases) auto

lemma as_confidence_Some: "as_confidence x = Some c \<Longrightarrow> x = Some (JStr (confidence_label c))"
  by (cases x rule: as_confidence.cases) (auto split: if_splits)

lemma all_some_list_all2:
  "all_some (map f xs) = Some ys \<Longrightarrow> list_all2 (\<lambda>y x. f x = Some y) ys xs"
proof (induction xs arbitrary: ys)
  case Nil
  then show ?case by simp
next
  case (Cons x xs)
  then show ?case
    by (cases "f x") (auto simp: list_all2_Cons2)
qed

lemma as_strings_Some: "as_strings x = Some ids \<Longrightarrow> x = Some (JArr (map JStr ids))"
proof (cases x rule: as_strings.cases)
  case (1 xs)
  assume "as_strings x = Some ids"
  with 1 have "list_all2 (\<lambda>y x. as_string (Some x) = Some y) ids xs"
    by (auto dest: all_some_list_all2)
  then have "xs = map JStr ids"
    by (induction rule: list_all2_induct) (auto simp: as_string_Some)
  with 1 show ?thesis by simp
qed auto

lemma read_list_Some:
  "read_list f v = Some ys \<Longrightarrow> \<exists>xs. v = Some (JArr xs) \<and> list_all2 (\<lambda>y x. f x = Some y) ys xs"
  by (cases "(f, v)" rule: read_list.cases) (auto dest: all_some_list_all2)

lemma read_node_Some:
  "read_node v = Some n \<Longrightarrow>
   jfield v ''id'' = Some (JStr (node_id n)) \<and> jfield v ''label'' = Some (JStr (node_label n))"
  by (auto simp: read_node_def as_string_Some split: option.splits)

lemma read_edge_Some:
  "read_edge v = Some e \<Longrightarrow>
   jfield v ''from'' = Some (JStr (edge_from e)) \<and> jfield v ''to'' = Some (JStr (edge_to e))
   \<and> jfield v ''evidenceIds'' = Some (JArr (map JStr (evidenceIds e)))
   \<and> jfield v ''confidence'' = Some (JStr (confidence_label (edge_confidence e)))"
  by (auto simp: read_edge_def as_string_Some split: option.splits
      dest: as_strings_Some as_confidence_Some)

lemma read_step_Some:
  "read_step v = Some s \<Longrightarrow>
   jfield v ''title'' = Some (JStr (step_title s)) \<and> jfield v ''command'' = Some (JStr (step_command s))
   \<and> jfield v ''rationale'' = Some (JStr (step_rationale s))
   \<and> jfield v ''requiresConfirmation'' = Some (JBool (requiresConfirmation s))
   \<and> jfield v ''confidence'' = Some (JStr (confidence_label (step_confidence s)))"
  by (auto simp: read_step_def as_string_Some as_boolean_Some split: option.splits
      dest: as_confidence_Some)

lemma check_array_cap:
  "check p (SArray s (Some n)) v = [] \<Longrightarrow> \<exists>xs. v = JArr xs \<and> length xs \<le> n"
  by (cases v) (auto split: if_splits)

lemma graph_schema_caps:
  assumes "check [] graph_schema raw = []"
  shows "\<exists>ns es. jfield raw ''nodes'' = Some (JArr ns) \<and> length ns \<le> 8
           \<and> jfield raw ''edges'' = Some (JArr es) \<and> length es \<le> 10"
proof -
  from assms obtain kvs where raw: "raw = JObj kvs"
    by (cases raw) (auto simp: graph_schema_def)
  from assms raw obtain n e where n: "map_of kvs ''nodes'' = Some n" and e: "map_of kvs ''edges'' = Some e"
    and cn: "check [Key ''nodes''] (SArray (SObject
         [(''id'', True, SString),
          (''label'', True, SString)]) (Some 8)) n = []"
    and ce: "check [Key ''edges''] (SArray (SObject
         [(''from'', True, SString),
          (''to'', True, SString),
          (''evidenceIds'', True, SArray SString None),
          (''confidence'', True, SEnum confidence_labels)]) (Some 10)) e = []"
    by (auto simp: graph_schema_def split: option.splits simp del: check.simps(4))
  from check_array_cap [OF cn] check_array_cap [OF ce] raw n e show ?thesis
    by auto
qed

lemma runbook_schema_caps:
  assumes "check [] runbook_schema raw = []"
  shows "\<exists>ss. jfield raw ''steps'' = Some (JArr ss) \<and> length ss \<le> 6"
proof -
  from assms obtain kvs where raw: "raw = JObj kvs"
    by (cases raw) (auto simp: runbook_schema_def)
  from assms raw obtain s where s: "map_of kvs ''steps'' = Some s"
    and cs: "check [Key ''steps''] (SArray (SObject
         [(''title'', True, SString),
          (''command'', True, SString),
          (''rationale'', True, SString),
          (''requiresConfirmation'', True, SBoolean),
          (''confidence'', True, SEnum confidence_labels)]) (Some 6)) s = []"
    by (auto simp: runbook_schema_def split: option.splits simp del: check.simps(4))
  from check_array_cap [OF cs] raw s show ?thesis
    by auto
qed

lemma validate_Inr:
  "validate raw k = Inr t \<Longrightarrow> check [] (schema_of k) raw = [] \<and> read_typed k raw = Some t"
  by (auto simp: validate_def split: list.splits option.splits)

lemma validate_graph_Inr:
  assumes "validate raw GraphKind = Inr t"
  shows "\<exists>g ns es. t = TypedGraph g
     \<and> jfield raw ''nodes'' = Some (JArr ns) \<and> jfield raw ''edges'' = Some (JArr es)
     \<and> length ns \<le> 8 \<and> length es \<le> 10
     \<and> list_all2 (\<lambda>n r. read_node r = Some n) (nodes g) ns
     \<and> list_all2 (\<lambda>e r. read_edge r = Some e) (edges g) es"
proof -
  from validate_Inr [OF assms] have c: "check [] graph_schema raw = []"
    and r: "map_option TypedGraph (read_graph raw) = Some t" by simp_all
  from r obtain g where t: "t = TypedGraph g" and g: "read_graph raw = Some g" by auto
  from graph_schema_caps [OF c] obtain ns es
    where n: "jfield raw ''nodes'' = Some (JArr ns)" "length ns \<le> 8"
      and e: "jfield raw ''edges'' = Some (JArr es)" "length es \<le> 10" by blast
  from g n e have "read_list read_node (Some (JArr ns)) = Some (nodes g)"
    and "read_list read_edge (Some (JArr es)) = Some (edges g)"
    by (auto simp: read_graph_def split: option.splits)
  then have "list_all2 (\<lambda>n r. read_node r = Some n) (nodes g) ns"
    and "list_all2 (\<lambda>e r. read_edge r = Some e) (edges g) es"
    by (auto dest: all_some_list_all2)
  with t n e show ?thesis by blast
qed

lemma check_items_strings:
  "check_items p SString i xs = [] \<Longrightarrow> \<exists>ms. xs = map JStr ms"
proof (induction xs arbitrary: i)
  case Nil
  then show ?case by simp
next
  case (Cons x xs)
  from Cons.prems have x: "check (p @ [Idx i]) SString x = []"
    and r: "check_items p SString (Suc i) xs = []" by simp_all
  from x obtain s where "x = JStr s" by (cases x) simp_all
  moreover from Cons.IH [OF r] obtain ms where "xs = map JStr ms" ..
  ultimately have "x # xs = map JStr (s # ms)" by simp
  then show ?case ..
qed

lemma as_strings_map: "as_strings (Some (JArr (map JStr ms))) = Some ms"
  by (induction ms) (simp_all add: comp_def)

lemma check_string_array:
  assumes "check p (SArray SString None) v = []"
  shows "\<exists>ms. v = JArr (map JStr ms) \<and> as_strings (Some v) = Some ms"
proof -
  from assms obtain xs where v: "v = JArr xs" and "check_items p SString 0 xs = []"
    by (cases v) simp_all
  from check_items_strings [OF this(2)] obtain ms where "xs = map JStr ms" ..
  with v as_strings_map [of ms] show ?thesis by simp
qed

lemma graph_schema_missingSignals:
  assumes "check [] graph_schema raw = []" and "jfield raw ''missingSignals'' = Some v"
  shows "\<exists>ms. v = JArr (map JStr ms) \<and> as_strings (Some v) = Some ms"
proof -
  from assms(1) obtain kvs where raw: "raw = JObj kvs"
    by (cases raw) (auto simp: graph_schema_def)
  from assms raw have "check [Key ''missingSignals''] (SArray SString None) v = []"
    by (auto simp: graph_schema_def split: option.splits simp del: check.simps(4))
  then show ?thesis by (rule check_string_array)
qed

lemma validate_graph_missingSignals:
  assumes "validate raw GraphKind = Inr (TypedGraph g)"
  shows "case jfield raw ''missingSignals'' of
           None \<Rightarrow> missingSignals g = None
         | Some v \<Rightarrow> \<exists>ms. v = JArr (map JStr ms) \<and> missingSignals g = Some ms"
proof -
  from validate_Inr [OF assms] have c: "check [] graph_schema raw = []"
    and r: "read_graph raw = Some g" by auto
  from r have m: "missingSignals g = as_strings (jfield raw ''missingSignals'')"
    by (auto simp: read_graph_def split: option.splits)
  show ?thesis
  proof (cases "jfield raw ''missingSignals''")
    case None
    with m show ?thesis by simp
  next
    case (Some v)
    from graph_schema_missingSignals [OF c Some] m Some show ?thesis by auto
  qed
qed

lemma validate_plan_Inr:
  assumes "validate raw RunbookKind = Inr t"
  shows "\<exists>p ss. t = TypedPlan p
     \<and> jfield raw ''summary'' = Some (JStr (summary p))
     \<and> jfield raw ''steps'' = Some (JArr ss) \<and> length ss \<le> 6
     \<and> list_all2 (\<lambda>s r. read_step r = Some s) (steps p) ss"
proof -
  from validate_Inr [OF assms] have c: "check [] runbook_schema raw = []"
    and r: "map_option TypedPlan (read_plan raw) = Some t" by simp_all
  from r obtain p where t: "t = TypedPlan p" and p: "read_plan raw = Some p" by auto
  from runbook_schema_caps [OF c] obtain ss
    where s: "jfield raw ''steps'' = Some (JArr ss)" "length ss \<le> 6" by blast
  from p s have sm: "jfield raw ''summary'' = Some (JStr (summary p))"
    and "read_list read_step (Some (JArr ss)) = Some (steps p)"
    by (auto simp: read_plan_def as_string_Some split: option.splits)
  then have "list_all2 (\<lambda>s r. read_step r = Some s) (steps p) ss"
    by (auto dest: all_some_list_all2)
  with t s sm show ?thesis by blast
qed

text \<open>
  Claim C3, on the validator modelled from the specification. Whenever
  \<open>validate\<close> returns a typed value and not violations, the raw value has every
  required field, each with the declared primitive type and holding exactly the value
  the typed structure carries (nothing is converted), every \<open>confidence\<close> is one of
  \<open>high\<close>, \<open>medium\<close>, \<open>low\<close>, and the arrays are within their caps: at most 8 nodes
  and 10 edges for the graph schema, at most 6 steps for the runbook schema. The one
  optional field, \<open>missingSignals\<close> of the graph, is either absent, and then absent
  from the typed graph, or an array of strings, and then the typed graph carries
  exactly these strings. So a missing required field, a field of a wrong primitive
  type, required or optional, an enum value outside the declared set or an exceeded
  cap always gives violations, and no field is converted to its declared type.
\<close>

theorem validate_accepts_only_conforming:
  "(validate raw GraphKind = Inr t \<longrightarrow>
      (\<exists>g ns es. t = TypedGraph g
         \<and> jfield raw ''nodes'' = Some (JArr ns) \<and> jfield raw ''edges'' = Some (JArr es)
         \<and> length ns \<le> 8 \<and> length es \<le> 10
         \<and> list_all2 (\<lambda>n r. jfield r ''id'' = Some (JStr (node_id n))
                          \<and> jfield r ''label'' = Some (JStr (node_label n))) (nodes g) ns
         \<and> list_all2 (\<lambda>e r. jfield r ''from'' = Some (JStr (edge_from e))
                          \<and> jfield r ''to'' = Some (JStr (edge_to e))
                          \<and> jfield r ''evidenceIds'' = Some (JArr (map JStr (evidenceIds e)))
                          \<and> jfield r ''confidence'' = Some (JStr (confidence_label (edge_confidence e))))
              (edges g) es
         \<and> (case jfield raw ''missingSignals'' of
              None \<Rightarrow> missingSignals g = None
            | Some v \<Rightarrow> \<exists>ms. v = JArr (map JStr ms) \<and> missingSignals g = Some ms)))
   \<and> (validate raw RunbookKind = Inr t \<longrightarrow>
      (\<exists>p ss. t = TypedPlan p
         \<and> jfield raw ''summary'' = Some (JStr (summary p))
         \<and> jfield raw ''steps'' = Some (JArr ss) \<and> length ss \<le> 6
         \<and> list_all2 (\<lambda>s r. jfield r ''title'' = Some (JStr (step_title s))
                          \<and> jfield r ''command'' = Some (JStr (step_command s))
                          \<and> jfield r ''rationale'' = Some (JStr (step_rationale s))
                          \<and> jfield r ''requiresConfirmation'' = Some (JBool (requiresConfirmation s))
                          \<and> jfield r ''confidence'' = Some (JStr (confidence_label (step_confidence s))))
              (steps p) ss))"
proof (intro conjI impI)
  assume v: "validate raw GraphKind = Inr t"
  from validate_graph_Inr [OF this] obtain g ns es where t: "t = TypedGraph g"
    and f: "jfield raw ''nodes'' = Some (JArr ns)" "jfield raw ''edges'' = Some (JArr es)"
      "length ns \<le> 8" "length es \<le> 10"
    and n: "list_all2 (\<lambda>n r. read_node r = Some n) (nodes g) ns"
    and e: "list_all2 (\<lambda>e r. read_edge r = Some e) (edges g) es" by blast
  from v t have m: "case jfield raw ''missingSignals'' of
              None \<Rightarrow> missingSignals g = None
            | Some v \<Rightarrow> \<exists>ms. v = JArr (map JStr ms) \<and> missingSignals g = Some ms"
    by (intro validate_graph_missingSignals) simp
  from n have "list_all2 (\<lambda>n r. jfield r ''id'' = Some (JStr (node_id n))
                          \<and> jfield r ''label'' = Some (JStr (node_label n))) (nodes g) ns"
    by (rule list_all2_mono) (rule read_node_Some)
  moreover from e have "list_all2 (\<lambda>e r. jfield r ''from'' = Some (JStr (edge_from e))
                          \<and> jfield r ''to'' = Some (JStr (edge_to e))
                          \<and> jfield r ''evidenceIds'' = Some (JArr (map JStr (evidenceIds e)))
                          \<and> jfield r ''confidence'' = Some (JStr (confidence_label (edge_confidence e))))
              (edges g) es"
    by (rule list_all2_mono) (rule read_edge_Some)
  ultimately show "\<exists>g ns es. t = TypedGraph g
         \<and> jfield raw ''nodes'' = Some (JArr ns) \<and> jfield raw ''edges'' = Some (JArr es)
         \<and> length ns \<le> 8 \<and> length es \<le> 10
         \<and> list_all2 (\<lambda>n r. jfield r ''id'' = Some (JStr (node_id n))
                          \<and> jfield r ''label'' = Some (JStr (node_label n))) (nodes g) ns
         \<and> list_all2 (\<lambda>e r. jfield r ''from'' = Some (JStr (edge_from e))
                          \<and> jfield r ''to'' = Some (JStr (edge_to e))
                          \<and> jfield r ''evidenceIds'' = Some (JArr (map JStr (evidenceIds e)))
                          \<and> jfield r ''confidence'' = Some (JStr (confidence_label (edge_confidence e))))
              (edges g) es
         \<and> (case jfield raw ''missingSignals'' of
              None \<Rightarrow> missingSignals g = None
            | Some v \<Rightarrow> \<exists>ms. v = JArr (map JStr ms) \<and> missingSignals g = Some ms)"
    using t f m by blast
next
  assume "validate raw RunbookKind = Inr t"
  from validate_plan_Inr [OF this] obtain p ss where t: "t = TypedPlan p"
    and f: "jfield raw ''summary'' = Some (JStr (summary p))"
      "jfield raw ''steps'' = Some (JArr ss)" "length ss \<le> 6"
    and s: "list_all2 (\<lambda>s r. read_step r = Some s) (steps p) ss" by blast
  from s have "list_all2 (\<lambda>s r. jfield r ''title'' = Some (JStr (step_title s))
                          \<and> jfield r ''command'' = Some (JStr (step_command s))
                          \<and> jfield r ''rationale'' = Some (JStr (step_rationale s))
                          \<and> jfield r ''requiresConfirmation'' = Some (JBool (requiresConfirmation s))
                          \<and> jfield r ''confidence'' = Some (JStr (confidence_label (step_confidence s))))
              (steps p) ss"
    by (rule list_all2_mono) (rule read_step_Some)
  with t f show "\<exists>p ss. t = TypedPlan p
         \<and> jfield raw ''summary'' = Some (JStr (summary p))
         \<and> jfield raw ''steps'' = Some (JArr ss) \<and> length ss \<le> 6
         \<and> list_all2 (\<lambda>s r. jfield r ''title'' = Some (JStr (step_title s))
                          \<and> jfield r ''command'' = Some (JStr (step_command s))
                          \<and> jfield r ''rationale'' = Some (JStr (step_rationale s))
                          \<and> jfield r ''requiresConfirmation'' = Some (JBool (requiresConfirmation s))
                          \<and> jfield r ''confidence'' = Some (JStr (confidence_label (step_confidence s))))
              (steps p) ss"
    by blast
qed

lemma validate_seeded: "validate seeded_graph_json GraphKind = Inr (TypedGraph seeded_graph)"
  by code_simp

text \<open>
  The graph of the end-to-end scenario is accepted under the graph schema, within the
  caps, and rejected under the runbook schema; a graph whose \<open>missingSignals\<close> is a
  string is rejected.
\<close>

theorem validate_accepts_only_conforming_witness:
  "validate seeded_graph_json GraphKind = Inr (TypedGraph seeded_graph)
   \<and> (\<exists>ns es. jfield seeded_graph_json ''nodes'' = Some (JArr ns) \<and> length ns \<le> 8
         \<and> jfield seeded_graph_json ''edges'' = Some (JArr es) \<and> length es \<le> 10)
   \<and> jfield seeded_graph_json ''missingSignals'' = None
   \<and> missingSignals seeded_graph = None
   \<and> isl (validate seeded_graph_json RunbookKind)
   \<and> jfield mistyped_graph_json ''missingSignals'' = Some (JStr ''none'')
   \<and> isl (validate mistyped_graph_json GraphKind)"
proof -
  have r: "isl (validate seeded_graph_json RunbookKind)" by code_simp
  have a: "jfield seeded_graph_json ''missingSignals'' = None"
    by (simp add: seeded_graph_json_def)
  have b: "missingSignals seeded_graph = None"
    by (simp add: seeded_graph_def)
  have m: "jfield mistyped_graph_json ''missingSignals'' = Some (JStr ''none'')"
    by (simp add: mistyped_graph_json_def)
  have "validate mistyped_graph_json GraphKind \<noteq> Inr t" for t
    using validate_accepts_only_conforming [of mistyped_graph_json t] m by auto
  then have i: "isl (validate mistyped_graph_json GraphKind)"
    by (cases "validate mistyped_graph_json GraphKind") auto
  from validate_accepts_only_conforming [of seeded_graph_json "TypedGraph seeded_graph"]
    validate_seeded r
  have "\<exists>ns es. jfield seeded_graph_json ''nodes'' = Some (JArr ns) \<and> length ns \<le> 8
         \<and> jfield seeded_graph_json ''edges'' = Some (JArr es) \<and> length es \<le> 10"
    by blast
  with validate_seeded r a b m i show ?thesis by blast
qed

subsection \<open>Causal graph synthesizer\<close>

lemma minimal_graph_invariant:
  "length (nodes (minimal_graph b)) \<le> 3 \<and> edges (minimal_graph b) = []
   \<and> missingSignals (minimal_graph b) \<noteq> None"
  by (simp add: minimal_graph_def)

lemma validating_invariant:
  assumes "validating raw = Inr g"
  shows "length (nodes g) \<le> 8 \<and> length (edges g) \<le> 10
     \<and> (\<forall>e \<in> set (edges g). edge_from e \<in> node_id ` set (nodes g) \<and> edge_to e \<in> node_id ` set (nodes g))
     \<and> acyclic (set (edge_pairs g))"
proof -
  from assms obtain t where v: "validate raw GraphKind = Inr t"
    by (cases "validate raw GraphKind") (auto simp: validating_def)
  from validate_graph_Inr [OF v] obtain g' ns es where t: "t = TypedGraph g'"
    and l: "length ns \<le> 8" "length es \<le> 10"
    and n: "list_all2 (\<lambda>n r. read_node r = Some n) (nodes g') ns"
    and e: "list_all2 (\<lambda>e r. read_edge r = Some e) (edges g') es" by blast
  from assms v t have g: "g' = g" and d: "dag_invariant g"
    by (auto simp: validating_def split: if_splits)
  from n e l g have "length (nodes g) \<le> 8" "length (edges g) \<le> 10"
    by (auto dest: list_all2_lengthD)
  moreover from d have "\<forall>e \<in> set (edges g). edge_from e \<in> node_id ` set (nodes g) \<and> edge_to e \<in> node_id ` set (nodes g)"
    by (auto simp: dag_invariant_def endpoints_declared_def list_all_iff)
  moreover from d have "acyclic (set (edge_pairs g))"
    by (auto simp: dag_invariant_def dest: topological_acyclic)
  ultimately show ?thesis by blast
qed

lemma synthesize_returned:
  assumes "returned (synthesize gen b) = Inr g"
  shows "g = minimal_graph b \<or> (\<exists>raw. validating raw = Inr g)"
  using assms
  by (auto simp: synthesize_def split: if_splits generation_reply.splits sum.splits)

text \<open>
  Claim C2, on the synthesizer modelled from the specification. Every graph a run of
  the synthesizer returns, accepted or fallback, has at most 8 nodes and at most 10
  edges, every edge's \<open>from\<close> and \<open>to\<close> are ids of nodes of the graph, and the edges
  have no directed cycle.
\<close>

theorem synthesized_graph_invariant:
  assumes "returned (synthesize gen b) = Inr g"
  shows "length (nodes g) \<le> 8 \<and> length (edges g) \<le> 10
     \<and> (\<forall>e \<in> set (edges g). edge_from e \<in> node_id ` set (nodes g) \<and> edge_to e \<in> node_id ` set (nodes g))
     \<and> acyclic (set (edge_pairs g))"
proof -
  from synthesize_returned [OF assms] show ?thesis
  proof
    assume "g = minimal_graph b"
    with minimal_graph_invariant [of b] show ?thesis
      by (simp add: edge_pairs_def acyclic_def)
  next
    assume "\<exists>raw. validating raw = Inr g"
    then show ?thesis by (auto dest: validating_invariant)
  qed
qed

lemma synthesize_seeded:
  "returned (synthesize scripted_generator seeded_bundle) = Inr seeded_graph"
  by code_simp

text \<open>
  In the end-to-end scenario the synthesizer returns the three-node, two-edge graph of
  the generator, which has no cycle.
\<close>

theorem synthesized_graph_invariant_witness:
  "returned (synthesize scripted_generator seeded_bundle) = Inr seeded_graph
   \<and> length (nodes seeded_graph) = 3 \<and> length (edges seeded_graph) = 2
   \<and> acyclic (set (edge_pairs seeded_graph))"
  using synthesized_graph_invariant [OF synthesize_seeded] synthesize_seeded
  by (simp add: seeded_graph_def)

lemma all_hits_empty: "(\<forall>e \<in> set (evidence b). hits e = []) \<Longrightarrow> all_hits b = []"
  by (simp add: all_hits_def)

text \<open>
  Claim C4, on the synthesizer modelled from the specification. For every evidence
  bundle in which every pattern's hit list is empty, the run goes from \<open>Idle\<close>
  straight to \<open>Fallback\<close>: it enters neither \<open>Requesting\<close> nor \<open>Repairing\<close>, calls the
  generator no time, and returns a graph with at most 3 nodes, no edge and a
  \<open>missingSignals\<close> note.
\<close>

theorem empty_evidence_fallback:
  assumes "\<forall>e \<in> set (evidence b). hits e = []"
  shows "trace (synthesize gen b) = [Idle, Fallback]
     \<and> generator_calls (synthesize gen b) = 0
     \<and> (\<exists>g. returned (synthesize gen b) = Inr g
           \<and> length (nodes g) \<le> 3 \<and> edges g = [] \<and> missingSignals g \<noteq> None)"
  using all_hits_empty [OF assms] minimal_graph_invariant [of b]
  by (simp add: synthesize_def)

text \<open>The bundle assembled from the store without hits takes that path.\<close>

theorem empty_evidence_fallback_witness:
  "list_all (\<lambda>e. hits e = []) (evidence silent_bundle)
   \<and> trace (synthesize scripted_generator silent_bundle) = [Idle, Fallback]
   \<and> generator_calls (synthesize scripted_generator silent_bundle) = 0
   \<and> \<not> isl (returned (synthesize scripted_generator silent_bundle))"
proof -
  have h: "\<forall>e \<in> set (evidence silent_bundle). hits e = []"
    by (simp add: silent_bundle_def all_patterns_def pattern_evidence_def query_def silent_store_def)
  from empty_evidence_fallback [OF h, of scripted_generator] h show ?thesis
    by (auto simp: list_all_iff)
qed

subsection \<open>Evidence assembler\<close>






end
